theory Spec2Isabelle
  imports Complex_Main
begin

section \<open>Conventions of the embedding\<close>

text \<open>
  The services of the fraud-detection system are embedded as pure functions that pass the
  state of their collaborators explicitly: the key-value store (Redis), the transaction
  collection (MongoDB) and the learned model held by \<^verbatim>\<open>MLService\<close>.

  \<^item> JavaScript numbers are exact reals (\<^typ>\<open>real\<close>); timestamps are integer milliseconds.
  \<^item> One request reads the clock once (\<open>now\<close>); the local-time calendar functions
    \<^verbatim>\<open>getHours\<close> and \<^verbatim>\<open>getDay\<close> are inputs.
  \<^item> A sorted-set member \<^verbatim>\<open>`${amount}:${now}`\<close> is the pair \<open>(amount, now)\<close>, the string
    \<^verbatim>\<open>`${latitude}:${longitude}`\<close> is the pair \<open>(latitude, longitude)\<close>: printing a number
    and parsing it again gives the number back.
  \<^item> The collaborators answer every call; only the exceptions raised or caught in the
    source itself are branches of the model.
\<close>

section \<open>Configuration (config.ts)\<close>

record config =
  maxTransactionAmount :: real
  maxDailyTransactions :: int
  maxVelocityPerMinute :: int
  nightTimeStart :: int
  nightTimeEnd :: int
  fraudThreshold :: real
  riskThreshold :: real
  enableMLModel :: bool

text \<open>The values the configuration takes when no environment variable is set.\<close>

definition default_config :: config where
  "default_config =
     \<lparr> maxTransactionAmount = 1000000,
       maxDailyTransactions = 20,
       maxVelocityPerMinute = 5,
       nightTimeStart = 23,
       nightTimeEnd = 5,
       fraudThreshold = 7 / 10,
       riskThreshold = 5 / 10,
       enableMLModel = True \<rparr>"

section \<open>The key-value store\<close>

type_synonym key = string

text \<open>A sorted-set member: the amount and the millisecond timestamp of one transaction.\<close>

type_synonym member = "real \<times> int"

text \<open>
  Each Redis type used by the services is one component, indexed by the full key (prefix
  and identifier). An absent sorted set, set or list is the empty one, as Redis answers.
  An element of a list under \<^verbatim>\<open>tx:<user>:24h\<close> or \<^verbatim>\<open>tx:<user>:7d\<close> is kept as what
  \<^verbatim>\<open>JSON.parse(tx).amount\<close> makes of it: \<open>None\<close> when parsing throws.
\<close>

record kv =
  zsets :: "key \<Rightarrow> (int \<times> member) list"
  ssets :: "key \<Rightarrow> string list"
  geo :: "key \<Rightarrow> (real \<times> real) option"
  lists :: "key \<Rightarrow> real option list"
  cache :: "key \<Rightarrow> (real \<times> string list) option"
  counters :: "key \<Rightarrow> int option"
  ttl :: "key \<Rightarrow> nat option"

text \<open>
  \<^verbatim>\<open>ZADD key score member\<close>: a sorted set holds each member once; adding a member that is
  already there only sets its score. The replies are used for their length and their
  amounts only, so the entries are kept in insertion order.
\<close>

definition zadd :: "(int \<times> member) list \<Rightarrow> int \<Rightarrow> member \<Rightarrow> (int \<times> member) list" where
  "zadd zs sc m = filter (\<lambda>e. snd e \<noteq> m) zs @ [(sc, m)]"

text \<open>\<^verbatim>\<open>ZRANGEBYSCORE key min max\<close>: the members whose score lies in \<open>[min, max]\<close>.\<close>

definition zrangebyscore :: "(int \<times> member) list \<Rightarrow> int \<Rightarrow> int \<Rightarrow> member list" where
  "zrangebyscore zs lo hi = map snd (filter (\<lambda>e. lo \<le> fst e \<and> fst e \<le> hi) zs)"

text \<open>\<^verbatim>\<open>SADD key value\<close>: a set holds each value once.\<close>

definition sadd :: "string list \<Rightarrow> string \<Rightarrow> string list" where
  "sadd xs v = (if v \<in> set xs then xs else xs @ [v])"

definition empty_kv :: kv where
  "empty_kv =
     \<lparr> zsets = (\<lambda>k. []), ssets = (\<lambda>k. []), geo = (\<lambda>k. None), lists = (\<lambda>k. []),
       cache = (\<lambda>k. None), counters = (\<lambda>k. None), ttl = (\<lambda>k. None) \<rparr>"

section \<open>Transactions\<close>

text \<open>
  The transaction as the services read it (\<^verbatim>\<open>transaction: any\<close>): the fields of the
  request body, and of the stored document, that scoring uses.
\<close>

record transaction =
  userId :: string
  amount :: real
  transactionType :: string
  deviceId :: string
  location :: "(real \<times> real) option"
  createdAt :: "int option"

text \<open>The clock and calendar of the process.\<close>

record clock =
  now :: int
  getHours :: "int \<Rightarrow> int"
  getDay :: "int \<Rightarrow> int"

section \<open>The rule engine (FraudDetectionService.ts)\<close>

record check_result =
  cr_score :: real
  cr_reason :: "string option"

definition VELOCITY_KEY_PREFIX :: string where "VELOCITY_KEY_PREFIX = ''velocity:''"
definition DEVICE_KEY_PREFIX :: string where "DEVICE_KEY_PREFIX = ''device:''"
definition GEO_KEY_PREFIX :: string where "GEO_KEY_PREFIX = ''geo:''"
definition AMOUNT_KEY_PREFIX :: string where "AMOUNT_KEY_PREFIX = ''amount:''"

definition reason_minute :: string where
  "reason_minute = ''High transaction velocity detected (per minute)''"
definition reason_hour :: string where
  "reason_hour = ''High transaction velocity detected (per hour)''"
definition reason_spike :: string where
  "reason_spike = ''Transaction amount significantly higher than usual pattern''"
definition reason_round :: string where
  "reason_round = ''Round number transaction detected''"
definition reason_device :: string where
  "reason_device = ''Device associated with multiple users''"
definition reason_geo :: string where
  "reason_geo = ''Unusual geographical location''"
definition reason_amount :: string where
  "reason_amount = ''Transaction amount exceeds threshold''"
definition reason_night :: string where
  "reason_night = ''Night time transaction''"

text \<open>The result \<^verbatim>\<open>{ score: 0 }\<close>.\<close>

definition no_risk :: check_result where
  "no_risk = \<lparr> cr_score = 0, cr_reason = None \<rparr>"

text \<open>
  \<^verbatim>\<open>checkVelocity\<close>: the sample of the transaction is written, then both windows are read;
  the per-minute test returns before the per-hour test is made.
\<close>

definition checkVelocity :: "config \<Rightarrow> int \<Rightarrow> kv \<Rightarrow> string \<Rightarrow> real \<Rightarrow> check_result \<times> kv" where
  "checkVelocity cfg t s uid amt =
     (let k = VELOCITY_KEY_PREFIX @ uid;
          minuteAgo = t - 60000;
          hourAgo = t - 3600000;
          s1 = s\<lparr> zsets := (zsets s)(k := zadd (zsets s k) t (amt, t)) \<rparr>;
          s2 = s1\<lparr> ttl := (ttl s1)(k := Some 3600) \<rparr>;
          recentTxns = zrangebyscore (zsets s2 k) minuteAgo t;
          hourlyTxns = zrangebyscore (zsets s2 k) hourAgo t
      in if int (length recentTxns) > maxVelocityPerMinute cfg
         then (\<lparr> cr_score = 8 / 10, cr_reason = Some reason_minute \<rparr>, s2)
         else if length hourlyTxns > 20
         then (\<lparr> cr_score = 6 / 10, cr_reason = Some reason_hour \<rparr>, s2)
         else (no_risk, s2))"

text \<open>
  The remainder \<^verbatim>\<open>a % b\<close> of JavaScript: the quotient is truncated towards zero.
\<close>

definition js_rem :: "real \<Rightarrow> real \<Rightarrow> real" where
  "js_rem a b =
     (let q = a / b
      in a - b * of_int (if 0 \<le> q then \<lfloor>q\<rfloor> else \<lceil>q\<rceil>))"

text \<open>
  \<^verbatim>\<open>checkAmountPatterns\<close>: the amounts of the last 24 hours are read; the current amount
  is stored only when no pattern is reported.
\<close>

definition checkAmountPatterns :: "int \<Rightarrow> kv \<Rightarrow> string \<Rightarrow> real \<Rightarrow> check_result \<times> kv" where
  "checkAmountPatterns t s uid amt =
     (let k = AMOUNT_KEY_PREFIX @ uid;
          dayAgo = t - 86400000;
          recentAmounts = zrangebyscore (zsets s k) dayAgo t;
          amounts = map fst recentAmounts;
          avgAmount = sum_list amounts / real (length amounts);
          s1 = s\<lparr> zsets := (zsets s)(k := zadd (zsets s k) t (amt, t)) \<rparr>;
          s2 = s1\<lparr> ttl := (ttl s1)(k := Some 86400) \<rparr>
      in if length amounts > 0 \<and> amt > avgAmount * 10 \<and> amt > 100000
         then (\<lparr> cr_score = 7 / 10, cr_reason = Some reason_spike \<rparr>, s)
         else if length amounts > 0 \<and> js_rem amt 10000 = 0 \<and> amt \<ge> 50000
         then (\<lparr> cr_score = 3 / 10, cr_reason = Some reason_round \<rparr>, s)
         else (no_risk, s2))"

text \<open>
  \<^verbatim>\<open>checkDeviceRisk\<close>: the users of the device are read before the current user is added.
\<close>

definition checkDeviceRisk :: "kv \<Rightarrow> string \<Rightarrow> string \<Rightarrow> check_result \<times> kv" where
  "checkDeviceRisk s uid did =
     (let k = DEVICE_KEY_PREFIX @ did;
          userIds = ssets s k;
          s1 = s\<lparr> ssets := (ssets s)(k := sadd (ssets s k) uid) \<rparr>
      in if length userIds > 0 \<and> uid \<notin> set userIds
         then (\<lparr> cr_score = 7 / 10, cr_reason = Some reason_device \<rparr>, s1)
         else (no_risk, s1))"

definition deg2rad :: "real \<Rightarrow> real" where
  "deg2rad deg = deg * (pi / 180)"

text \<open>\<^verbatim>\<open>Math.atan2(y, x)\<close>, the angle of the point \<open>(x, y)\<close>.\<close>

definition atan2 :: "real \<Rightarrow> real \<Rightarrow> real" where
  "atan2 y x =
     (if x > 0 then arctan (y / x)
      else if x < 0 \<and> y \<ge> 0 then arctan (y / x) + pi
      else if x < 0 then arctan (y / x) - pi
      else if y > 0 then pi / 2
      else if y < 0 then - (pi / 2)
      else 0)"

text \<open>\<^verbatim>\<open>calculateDistance\<close>: the haversine distance in kilometres.\<close>

definition calculateDistance :: "real \<Rightarrow> real \<Rightarrow> real \<Rightarrow> real \<Rightarrow> real" where
  "calculateDistance lat1 lon1 lat2 lon2 =
     (let R = 6371;
          dLat = deg2rad (lat2 - lat1);
          dLon = deg2rad (lon2 - lon1);
          a = sin (dLat / 2) * sin (dLat / 2) +
              cos (deg2rad lat1) * cos (deg2rad lat2) * sin (dLon / 2) * sin (dLon / 2);
          c = 2 * atan2 (sqrt a) (sqrt (1 - a))
      in R * c)"

text \<open>
  \<^verbatim>\<open>checkGeoRisk\<close>: when the distance to the last known location exceeds 100 km the
  function returns at once; the location is stored on the other path only.
\<close>

definition checkGeoRisk :: "kv \<Rightarrow> string \<Rightarrow> real \<Rightarrow> real \<Rightarrow> check_result \<times> kv" where
  "checkGeoRisk s uid lat lon =
     (let k = GEO_KEY_PREFIX @ uid;
          lastLocation = geo s k;
          far = (case lastLocation of
                   None \<Rightarrow> False
                 | Some (lastLat, lastLon) \<Rightarrow> calculateDistance lat lon lastLat lastLon > 100)
      in if far
         then (\<lparr> cr_score = 6 / 10, cr_reason = Some reason_geo \<rparr>, s)
         else (no_risk, s\<lparr> geo := (geo s)(k := Some (lat, lon)) \<rparr>))"

text \<open>
  The step repeated in \<^verbatim>\<open>detectFraud\<close> for each check: a positive score is added to
  \<^verbatim>\<open>totalScore\<close> and its reason, when there is one, is pushed.
\<close>

definition addCheck :: "check_result \<Rightarrow> real \<times> string list \<Rightarrow> real \<times> string list" where
  "addCheck c acc =
     (if cr_score c > 0
      then (fst acc + cr_score c,
            (case cr_reason c of None \<Rightarrow> snd acc | Some r \<Rightarrow> snd acc @ [r]))
      else acc)"

text \<open>
  The checks 2 to 5 of \<^verbatim>\<open>detectFraud\<close> (device, location, amount threshold, night
  time), run on the accumulated \<^verbatim>\<open>totalScore\<close> and \<^verbatim>\<open>reasons\<close>.
\<close>

definition remainingChecks ::
    "config \<Rightarrow> clock \<Rightarrow> kv \<Rightarrow> 'a transaction_scheme \<Rightarrow> real \<times> string list
       \<Rightarrow> (real \<times> string list) \<times> kv" where
  "remainingChecks cfg clk s1 tx acc1 =
     (let (deviceCheck, s2) = checkDeviceRisk s1 (userId tx) (deviceId tx);
          acc2 = addCheck deviceCheck acc1;
          (acc3, s3) =
            (case location tx of
               None \<Rightarrow> (acc2, s2)
             | Some (lat, lon) \<Rightarrow>
                 (let (geoCheck, s') = checkGeoRisk s2 (userId tx) lat lon
                  in (addCheck geoCheck acc2, s')));
          acc4 = (if amount tx > maxTransactionAmount cfg
                  then (fst acc3 + 5 / 10, snd acc3 @ [reason_amount]) else acc3);
          hour = getHours clk (now clk);
          acc5 = (if hour \<ge> nightTimeStart cfg \<or> hour \<le> nightTimeEnd cfg
                  then (fst acc4 + 3 / 10, snd acc4 @ [reason_night]) else acc4)
      in (acc5, s3))"

text \<open>
  The body of \<^verbatim>\<open>detectFraud\<close> up to the normalisation: \<^verbatim>\<open>totalScore\<close>, \<^verbatim>\<open>reasons\<close> and
  the store after the checks. The velocity check runs first.
\<close>

definition detectFraud_total ::
    "config \<Rightarrow> clock \<Rightarrow> kv \<Rightarrow> 'a transaction_scheme \<Rightarrow> (real \<times> string list) \<times> kv" where
  "detectFraud_total cfg clk s tx =
     (let (velocityCheck, s1) = checkVelocity cfg (now clk) s (userId tx) (amount tx);
          acc1 = addCheck velocityCheck (0, [])
      in remainingChecks cfg clk s1 tx acc1)"

record detect_result =
  isFreudulent :: bool
  dr_riskScore :: real
  dr_reasons :: "string list"

definition detectFraud ::
    "config \<Rightarrow> clock \<Rightarrow> kv \<Rightarrow> 'a transaction_scheme \<Rightarrow> detect_result \<times> kv" where
  "detectFraud cfg clk s tx =
     (let ((totalScore, reasons), s') = detectFraud_total cfg clk s tx;
          normalizedScore = min totalScore 1
      in (\<lparr> isFreudulent = (normalizedScore \<ge> 7 / 10),
            dr_riskScore = normalizedScore,
            dr_reasons = reasons \<rparr>, s'))"

section \<open>The learned scorer (MLService.ts)\<close>

text \<open>
  What \<^verbatim>\<open>model.predict\<close> gives for a feature vector: a score, the value NaN, or an
  exception. A loaded model is known by its predictions.
\<close>

datatype prediction = Score real | NaN | PredictThrows

datatype net = Net (predict: "real list \<Rightarrow> prediction")

definition FEATURE_NAMES :: "string list" where
  "FEATURE_NAMES =
     [''amount'', ''hour'', ''dayOfWeek'', ''isNewDevice'', ''deviceUserCount'',
      ''txCountLast24h'', ''avgAmountLast24h'', ''txCountLast7d'', ''avgAmountLast7d'',
      ''uniqueDevicesLast24h'']"

text \<open>\<^verbatim>\<open>FEATURE_STATS\<close>: the mean and the standard deviation of each feature.\<close>

definition FEATURE_STATS :: "(string \<times> real \<times> real) list" where
  "FEATURE_STATS =
     [(''amount'', 50000, 200000),
      (''hour'', 12, 693 / 100),
      (''dayOfWeek'', 3, 2),
      (''isNewDevice'', 1 / 10, 3 / 10),
      (''deviceUserCount'', 12 / 10, 5 / 10),
      (''txCountLast24h'', 25 / 10, 32 / 10),
      (''avgAmountLast24h'', 45000, 180000),
      (''txCountLast7d'', 12, 15),
      (''avgAmountLast7d'', 48000, 190000),
      (''uniqueDevicesLast24h'', 11 / 10, 4 / 10)]"

text \<open>The amount read from a list element; 0 when \<^verbatim>\<open>JSON.parse\<close> throws.\<close>

definition parsedAmount :: "real option \<Rightarrow> real" where
  "parsedAmount e = (case e of None \<Rightarrow> 0 | Some a \<Rightarrow> a)"

definition average :: "real list \<Rightarrow> real" where
  "average xs = (if length xs > 0 then sum_list xs / real (length xs) else 0)"

text \<open>The z-score of one feature, or \<^verbatim>\<open>feature / 1000\<close> for a name without statistics.\<close>

definition normalize :: "real \<times> string \<Rightarrow> real" where
  "normalize fn =
     (case map_of FEATURE_STATS (snd fn) of
        Some (mean, std) \<Rightarrow> (fst fn - mean) / std
      | None \<Rightarrow> fst fn / 1000)"

text \<open>\<^verbatim>\<open>transaction.createdAt || Date.now()\<close>.\<close>

definition createdAtOrNow :: "clock \<Rightarrow> 'a transaction_scheme \<Rightarrow> int" where
  "createdAtOrNow clk tx =
     (case createdAt tx of
        None \<Rightarrow> now clk
      | Some t \<Rightarrow> if t = 0 then now clk else t)"

definition preprocessFeatures :: "clock \<Rightarrow> kv \<Rightarrow> 'a transaction_scheme \<Rightarrow> real list" where
  "preprocessFeatures clk s tx =
     (let hour = getHours clk (createdAtOrNow clk tx);
          dayOfWeek = getDay clk (createdAtOrNow clk tx);
          userCount = length (ssets s (''device:'' @ deviceId tx));
          recentTxs24h = lists s (''tx:'' @ userId tx @ '':24h'');
          txCount24h = length recentTxs24h;
          recentTxs7d = lists s (''tx:'' @ userId tx @ '':7d'');
          txCount7d = length recentTxs7d;
          avgAmount24h = average (map parsedAmount recentTxs24h);
          avgAmount7d = average (map parsedAmount recentTxs7d);
          uniqueDevices24h = length (ssets s (''user_devices:'' @ userId tx @ '':24h''));
          features =
            [amount tx, real_of_int hour, real_of_int dayOfWeek,
             (if userCount = 0 then 1 else 0), real userCount, real txCount24h,
             avgAmount24h, real txCount7d, avgAmount7d, real uniqueDevices24h]
      in map normalize (zip features FEATURE_NAMES))"

definition fallbackRiskScore :: "'a transaction_scheme \<Rightarrow> real" where
  "fallbackRiskScore tx =
     (if amount tx > 1000000 then 9 / 10
      else if amount tx > 500000 then 7 / 10
      else if amount tx > 100000 then 5 / 10
      else 2 / 10)"

text \<open>
  \<^verbatim>\<open>predictRisk\<close>: the fallback score when no model is loaded, when the prediction is
  NaN and when predicting throws.
\<close>

definition predictRisk :: "net option \<Rightarrow> clock \<Rightarrow> kv \<Rightarrow> 'a transaction_scheme \<Rightarrow> real" where
  "predictRisk m clk s tx =
     (case m of
        None \<Rightarrow> fallbackRiskScore tx
      | Some n \<Rightarrow>
          (case predict n (preprocessFeatures clk s tx) of
             Score sc \<Rightarrow> sc
           | NaN \<Rightarrow> fallbackRiskScore tx
           | PredictThrows \<Rightarrow> fallbackRiskScore tx))"

datatype ml_error = ModelNotLoaded | FitThrows

definition MODEL_VERSION_KEY :: string where
  "MODEL_VERSION_KEY = ''ml:model:version''"

text \<open>\<^verbatim>\<open>INCR key\<close>: an absent counter counts from 0.\<close>

definition incr :: "kv \<Rightarrow> key \<Rightarrow> kv" where
  "incr s k =
     s\<lparr> counters := (counters s)(k := Some ((case counters s k of None \<Rightarrow> 0 | Some c \<Rightarrow> c) + 1)) \<rparr>"

text \<open>
  \<^verbatim>\<open>updateModelWithTransaction\<close>: throws when no model is loaded; otherwise one training
  step (\<open>fit\<close>, which gives the trained model or throws) and the version counter.
\<close>

definition updateModelWithTransaction ::
    "(net \<Rightarrow> real list \<Rightarrow> real \<Rightarrow> net option) \<Rightarrow> net option \<Rightarrow> clock \<Rightarrow> kv
       \<Rightarrow> 'a transaction_scheme \<Rightarrow> bool \<Rightarrow> ml_error + (net option \<times> kv)" where
  "updateModelWithTransaction fit m clk s tx wasActuallyFraud =
     (case m of
        None \<Rightarrow> Inl ModelNotLoaded
      | Some n \<Rightarrow>
          (let features = preprocessFeatures clk s tx;
               label = (if wasActuallyFraud then 1 else 0)
           in case fit n features label of
                None \<Rightarrow> Inl FitThrows
              | Some n' \<Rightarrow> Inr (Some n', incr s MODEL_VERSION_KEY)))"

section \<open>The stored transaction (Transaction.ts)\<close>

datatype status = PENDING | APPROVED | DENIED | FLAGGED

record txdoc = transaction +
  ipAddress :: string
  riskScore :: real
  status :: status

text \<open>The values the schema allows for \<^verbatim>\<open>transactionType\<close>; saving any other value throws.\<close>

definition TRANSACTION_TYPES :: "string list" where
  "TRANSACTION_TYPES = [''TRANSFER'', ''CARD'', ''QR'', ''POS'']"

section \<open>The routes\<close>

text \<open>
  The state the routes work on: the key-value store, the transaction collection by
  document id, and the model of the \<^verbatim>\<open>MLService\<close> instance (\<open>None\<close> while
  \<^verbatim>\<open>this.model\<close> is null).
\<close>

record system =
  kvs :: kv
  db :: "string \<Rightarrow> txdoc option"
  ml :: "net option"

text \<open>
  The environment of a request: the clock, the addresses \<^verbatim>\<open>req.ip\<close> and
  \<^verbatim>\<open>req.connection.remoteAddress\<close>, the id the collection gives a new document, and
  which strings the collection casts to an ObjectId (\<^verbatim>\<open>findById\<close> throws a CastError
  for the others).
\<close>

record request_env =
  clk :: clock
  req_ip :: "string option"
  remoteAddress :: "string option"
  newId :: string
  castsToObjectId :: "string \<Rightarrow> bool"

text \<open>
  The body of a \<^verbatim>\<open>/check\<close> request. A field that is absent (or null) is \<open>None\<close>.
\<close>

record check_body =
  b_userId :: "string option"
  b_amount :: "real option"
  b_transactionType :: "string option"
  b_deviceId :: "string option"
  b_location :: "(real option \<times> real option) option"
  b_createdAt :: "int option"

datatype action = ALLOW | DENY

record check_response =
  transactionId :: string
  resp_riskScore :: real
  isHighRisk :: bool
  resp_reasons :: "string list"
  recommendedAction :: action

datatype response =
    BadRequest string
  | NotFound string
  | ServerError string
  | CheckOk check_response
  | ReportOk string

fun statusCode :: "response \<Rightarrow> nat" where
  "statusCode (BadRequest _) = 400"
| "statusCode (NotFound _) = 404"
| "statusCode (ServerError _) = 500"
| "statusCode (CheckOk _) = 200"
| "statusCode (ReportOk _) = 200"

text \<open>
  \<^verbatim>\<open>validateTransaction\<close>: a field passes when its value is truthy, so the empty string
  and the number 0 fail as an absent field does. A body that passes is the transaction
  the services read.
\<close>

definition validateTransaction :: "check_body \<Rightarrow> string + transaction" where
  "validateTransaction b =
     (case (b_userId b, b_amount b, b_transactionType b, b_deviceId b) of
        (Some u, Some a, Some ty, Some d) \<Rightarrow>
          if u = [] \<or> a = 0 \<or> ty = [] \<or> d = []
          then Inl ''Missing required fields''
          else (case b_location b of
                  None \<Rightarrow>
                    Inr \<lparr> userId = u, amount = a, transactionType = ty, deviceId = d,
                          location = None, createdAt = b_createdAt b \<rparr>
                | Some (Some lat, Some lon) \<Rightarrow>
                    if lat = 0 \<or> lon = 0
                    then Inl ''Invalid location format''
                    else Inr \<lparr> userId = u, amount = a, transactionType = ty, deviceId = d,
                               location = Some (lat, lon), createdAt = b_createdAt b \<rparr>
                | Some _ \<Rightarrow> Inl ''Invalid location format'')
      | _ \<Rightarrow> Inl ''Missing required fields'')"

text \<open>\<^verbatim>\<open>req.ip || req.connection.remoteAddress || "unknown"\<close>.\<close>

definition clientAddress :: "request_env \<Rightarrow> string" where
  "clientAddress env =
     (case req_ip env of
        Some a \<Rightarrow> if a \<noteq> [] then a
                  else (case remoteAddress env of
                          Some r \<Rightarrow> if r \<noteq> [] then r else ''unknown''
                        | None \<Rightarrow> ''unknown'')
      | None \<Rightarrow> (case remoteAddress env of
                   Some r \<Rightarrow> if r \<noteq> [] then r else ''unknown''
                 | None \<Rightarrow> ''unknown''))"

text \<open>
  The scoring of \<^verbatim>\<open>/check\<close>: the rule engine, then the learned scorer on the store the
  rule engine left, then the weighted sum. No configuration value is read here.
\<close>

definition scoreTransaction ::
    "config \<Rightarrow> clock \<Rightarrow> net option \<Rightarrow> kv \<Rightarrow> 'a transaction_scheme
       \<Rightarrow> (real \<times> detect_result) \<times> kv" where
  "scoreTransaction cfg c m s tx =
     (let (ruleBasedResult, s1) = detectFraud cfg c s tx;
          mlRiskScore = predictRisk m c s1 tx;
          finalRiskScore = dr_riskScore ruleBasedResult * (6 / 10) + mlRiskScore * (4 / 10)
      in ((finalRiskScore, ruleBasedResult), s1))"

text \<open>
  The handler of \<^verbatim>\<open>POST /check\<close>. Saving the document throws when the schema rejects
  it; the handler then answers 500, after the rule engine has written to the store.
\<close>

definition check :: "config \<Rightarrow> request_env \<Rightarrow> system \<Rightarrow> check_body \<Rightarrow> response \<times> system" where
  "check cfg env st b =
     (case validateTransaction b of
        Inl msg \<Rightarrow> (BadRequest msg, st)
      | Inr tx \<Rightarrow>
          (let ((finalRiskScore, ruleBasedResult), s1) =
                 scoreTransaction cfg (clk env) (ml st) (kvs st) tx;
               newTransaction =
                 \<lparr> userId = userId tx, amount = amount tx,
                   transactionType = transactionType tx, deviceId = deviceId tx,
                   location = location tx,
                   createdAt = (case createdAt tx of
                                  None \<Rightarrow> Some (now (clk env)) | Some t \<Rightarrow> Some t),
                   ipAddress = clientAddress env,
                   riskScore = finalRiskScore,
                   status = (if finalRiskScore \<ge> 7 / 10 then FLAGGED else PENDING) \<rparr>
           in if transactionType tx \<notin> set TRANSACTION_TYPES
              then (ServerError ''Internal server error'', st\<lparr> kvs := s1 \<rparr>)
              else
                (let s2 = s1\<lparr> cache := (cache s1)(''tx:'' @ newId env :=
                                   Some (finalRiskScore, dr_reasons ruleBasedResult)),
                             ttl := (ttl s1)(''tx:'' @ newId env := Some 3600) \<rparr>
                 in (CheckOk \<lparr> transactionId = newId env,
                               resp_riskScore = finalRiskScore,
                               isHighRisk = (finalRiskScore \<ge> 7 / 10),
                               resp_reasons = dr_reasons ruleBasedResult,
                               recommendedAction =
                                 (if finalRiskScore \<ge> 7 / 10 then DENY else ALLOW) \<rparr>,
                     st\<lparr> kvs := s2,
                        db := (db st)(newId env := Some newTransaction) \<rparr>))))"

text \<open>
  The body of a \<^verbatim>\<open>/report-fraud\<close> request; \<open>r_wasActuallyFraud\<close> is \<open>None\<close> when the
  field is not a boolean.
\<close>

record report_body =
  r_transactionId :: "string option"
  r_wasActuallyFraud :: "bool option"

text \<open>
  The handler of \<^verbatim>\<open>POST /report-fraud\<close>: the document is saved with its new status, then
  the model is updated; an exception of the update is answered with 500. The id of a
  stored document is one the collection gave, so it casts; for an id without a document
  \<^verbatim>\<open>findById\<close> gives null (answered with 404) when the id casts to an ObjectId and
  throws a CastError (answered with 500 by the catch block) when it does not.
\<close>

definition report_fraud ::
    "(net \<Rightarrow> real list \<Rightarrow> real \<Rightarrow> net option) \<Rightarrow> request_env \<Rightarrow> system \<Rightarrow> report_body
       \<Rightarrow> response \<times> system" where
  "report_fraud fit env st b =
     (case (r_transactionId b, r_wasActuallyFraud b) of
        (Some tid, Some wasActuallyFraud) \<Rightarrow>
          if tid = [] then (BadRequest ''Missing required fields'', st)
          else
            (case db st tid of
               None \<Rightarrow>
                 if castsToObjectId env tid
                 then (NotFound ''Transaction not found'', st)
                 else (ServerError ''Internal server error'', st)
             | Some doc \<Rightarrow>
                 (let doc' = doc\<lparr> status := (if wasActuallyFraud then DENIED else APPROVED) \<rparr>;
                      st1 = st\<lparr> db := (db st)(tid := Some doc') \<rparr>
                  in case updateModelWithTransaction fit (ml st1) (clk env) (kvs st1) doc'
                            wasActuallyFraud of
                       Inl e \<Rightarrow> (ServerError ''Internal server error'', st1)
                     | Inr (m', s') \<Rightarrow>
                         (ReportOk ''Fraud report processed successfully'',
                          st1\<lparr> ml := m', kvs := s' \<rparr>)))
      | _ \<Rightarrow> (BadRequest ''Missing required fields'', st))"

section \<open>Auxiliary definitions\<close>

text \<open>What \<open>addCheck\<close> adds to \<^verbatim>\<open>totalScore\<close> and pushes on \<^verbatim>\<open>reasons\<close> for a check.\<close>

definition contribution :: "check_result \<Rightarrow> real" where
  "contribution c = (if cr_score c > 0 then cr_score c else 0)"

definition pushed :: "check_result \<Rightarrow> string list" where
  "pushed c =
     (if cr_score c > 0 then (case cr_reason c of None \<Rightarrow> [] | Some r \<Rightarrow> [r]) else [])"

text \<open>
  The fusion as the specification words it, to be compared with the weighted sum of
  \<open>scoreTransaction\<close>: \<open>clamp(ruleWeight * ruleScore + modelWeight * modelScore, 0, 1)\<close> with
  the weights 0.6 and 0.4.
\<close>

definition spec_clamp :: "real \<Rightarrow> real \<Rightarrow> real \<Rightarrow> real" where
  "spec_clamp x lo hi = max lo (min x hi)"

definition spec_final :: "real \<Rightarrow> real \<Rightarrow> real" where
  "spec_final ruleScore modelScore = spec_clamp (6 / 10 * ruleScore + 4 / 10 * modelScore) 0 1"

subsection \<open>Concrete inputs\<close>

text \<open>Noon of 1 June 2024 (UTC), a Saturday.\<close>

definition noon_clock :: clock where
  "noon_clock = \<lparr> now = 1717243200000, getHours = (\<lambda>t. 12), getDay = (\<lambda>t. 6) \<rparr>"

definition tx_u1 :: transaction where
  "tx_u1 = \<lparr> userId = ''u1'', amount = 5000, transactionType = ''TRANSFER'',
             deviceId = ''d1'', location = None, createdAt = None \<rparr>"

text \<open>Twenty samples of user u1 in the last twenty seconds.\<close>

definition busy_kv :: kv where
  "busy_kv = empty_kv\<lparr> zsets := (\<lambda>k. if k = ''velocity:u1''
       then map (\<lambda>i. (1717243200000 - 1000 * i, (100, 1717243200000 - 1000 * i)))
              [1, 2, 3, 4, 5, 6, 7, 8, 9, 10, 11, 12, 13, 14, 15, 16, 17, 18, 19, 20]
       else []) \<rparr>"

text \<open>Five samples of user u1, ten seconds apart, the last one ten seconds old.\<close>

definition five_kv :: kv where
  "five_kv = empty_kv\<lparr> zsets := (\<lambda>k. if k = ''velocity:u1''
       then [(1717243150000, (100, 1717243150000)), (1717243160000, (100, 1717243160000)),
             (1717243170000, (100, 1717243170000)), (1717243180000, (100, 1717243180000)),
             (1717243190000, (100, 1717243190000))]
       else []) \<rparr>"

text \<open>Five samples, the last one written in the current millisecond for the amount 5000.\<close>

definition same_ms_kv :: kv where
  "same_ms_kv = empty_kv\<lparr> zsets := (\<lambda>k. if k = ''velocity:u1''
       then [(1717243160000, (100, 1717243160000)), (1717243170000, (100, 1717243170000)),
             (1717243180000, (100, 1717243180000)), (1717243190000, (100, 1717243190000)),
             (1717243200000, (5000, 1717243200000))]
       else []) \<rparr>"

text \<open>One amount of 1000 recorded an hour ago for user u1.\<close>

definition history_kv :: kv where
  "history_kv = empty_kv\<lparr> zsets := (\<lambda>k. if k = ''amount:u1''
       then [(1717239600000, (1000, 1717239600000))] else []) \<rparr>"

definition tx_spike :: transaction where
  "tx_spike = \<lparr> userId = ''u1'', amount = 200000, transactionType = ''TRANSFER'',
                deviceId = ''d1'', location = None, createdAt = None \<rparr>"

text \<open>The last known location of user u1 is the south pole.\<close>

definition south_kv :: kv where
  "south_kv = empty_kv\<lparr> geo := (\<lambda>k. if k = ''geo:u1'' then Some (- 90, 180) else None) \<rparr>"

definition tx_north :: transaction where
  "tx_north = \<lparr> userId = ''u1'', amount = 5000, transactionType = ''TRANSFER'',
                deviceId = ''d1'', location = Some (90, 180), createdAt = None \<rparr>"

text \<open>A model that predicts 0.5 for every input, and one that predicts 1.\<close>

definition half_net :: net where
  "half_net = Net (\<lambda>fs. Score (1 / 2))"

definition sure_net :: net where
  "sure_net = Net (\<lambda>fs. Score 1)"

text \<open>A training step that leaves the model as it is.\<close>

definition fit_same :: "net \<Rightarrow> real list \<Rightarrow> real \<Rightarrow> net option" where
  "fit_same n fs label = Some n"

definition clean_system :: system where
  "clean_system = \<lparr> kvs = empty_kv, db = (\<lambda>i. None), ml = Some half_net \<rparr>"

definition busy_system :: system where
  "busy_system = \<lparr> kvs = busy_kv, db = (\<lambda>i. None), ml = Some sure_net \<rparr>"

text \<open>A string of 24 hexadecimal digits.\<close>

definition hex24 :: "string \<Rightarrow> bool" where
  "hex24 i = (length i = 24 \<and> list_all (\<lambda>ch. ch \<in> set ''0123456789abcdefABCDEF'') i)"

definition noon_env :: request_env where
  "noon_env = \<lparr> clk = noon_clock, req_ip = Some ''10.0.0.1'', remoteAddress = None,
                newId = ''507f1f77bcf86cd799439011'', castsToObjectId = hex24 \<rparr>"

definition body_u1 :: check_body where
  "body_u1 = \<lparr> b_userId = Some ''u1'', b_amount = Some 5000, b_transactionType = Some ''TRANSFER'',
               b_deviceId = Some ''d1'', b_location = None, b_createdAt = None \<rparr>"

text \<open>A model whose prediction is NaN, and one whose prediction throws.\<close>

definition nan_net :: net where
  "nan_net = Net (\<lambda>fs. NaN)"

definition throwing_net :: net where
  "throwing_net = Net (\<lambda>fs. PredictThrows)"

text \<open>The default configuration with \<^verbatim>\<open>FRAUD_THRESHOLD=0.1\<close>.\<close>

definition low_threshold_config :: config where
  "low_threshold_config = default_config\<lparr> fraudThreshold := 1 / 10 \<rparr>"

text \<open>A fraud report for an id that is not an ObjectId.\<close>

definition report_invalid :: report_body where
  "report_invalid = \<lparr> r_transactionId = Some ''invalid-id'', r_wasActuallyFraud = Some True \<rparr>"

text \<open>The default configuration with \<^verbatim>\<open>ENABLE_ML_MODEL=false\<close>.\<close>

definition ml_off_config :: config where
  "ml_off_config = default_config\<lparr> enableMLModel := False \<rparr>"

text \<open>A request located on the equator.\<close>

definition body_equator :: check_body where
  "body_equator = \<lparr> b_userId = Some ''u1'', b_amount = Some 5000,
      b_transactionType = Some ''TRANSFER'', b_deviceId = Some ''d1'',
      b_location = Some (Some 0, Some (33792 / 10000)), b_createdAt = None \<rparr>"

text \<open>A stored transaction, in a system whose model is not loaded.\<close>

definition stored_doc :: txdoc where
  "stored_doc = \<lparr> userId = ''u1'', amount = 5000, transactionType = ''TRANSFER'',
      deviceId = ''d1'', location = None, createdAt = Some 1717243200000,
      ipAddress = ''10.0.0.1'', riskScore = 2 / 25, status = PENDING \<rparr>"

definition unloaded_system :: system where
  "unloaded_system = \<lparr> kvs = empty_kv,
      db = (\<lambda>i. if i = ''507f1f77bcf86cd799439011'' then Some stored_doc else None),
      ml = None \<rparr>"

definition report_true :: report_body where
  "report_true = \<lparr> r_transactionId = Some ''507f1f77bcf86cd799439011'',
                   r_wasActuallyFraud = Some True \<rparr>"

section \<open>The accumulated score and reasons\<close>

lemma addCheck_eq: "addCheck c acc = (fst acc + contribution c, snd acc @ pushed c)"
  by (simp add: addCheck_def contribution_def pushed_def split: option.splits)

lemma contribution_nonneg: "0 \<le> contribution c"
  by (simp add: contribution_def)

lemma remainingChecks_shift:
  "remainingChecks cfg c s tx (a, rs) =
     ((a + fst (fst (remainingChecks cfg c s tx (0, []))),
       rs @ snd (fst (remainingChecks cfg c s tx (0, [])))),
      snd (remainingChecks cfg c s tx (0, [])))"
  unfolding remainingChecks_def Let_def
  by (simp add: addCheck_eq split_beta split: option.splits)

lemma remainingChecks_nonneg: "0 \<le> fst (fst (remainingChecks cfg c s tx (0, [])))"
  unfolding remainingChecks_def Let_def
  by (simp add: addCheck_eq split_beta contribution_nonneg split: option.splits)

lemma pushed_device_eq:
  "pushed (fst (checkDeviceRisk s u d)) =
     (if length (ssets s (DEVICE_KEY_PREFIX @ d)) > 0 \<and> u \<notin> set (ssets s (DEVICE_KEY_PREFIX @ d))
      then [reason_device] else [])"
  by (simp add: checkDeviceRisk_def Let_def no_risk_def pushed_def)

lemma pushed_device:
  "x \<in> set (pushed (fst (checkDeviceRisk s u d))) \<Longrightarrow> x = reason_device"
  by (cases "length (ssets s (DEVICE_KEY_PREFIX @ d)) > 0 \<and> u \<notin> set (ssets s (DEVICE_KEY_PREFIX @ d))")
     (simp_all add: pushed_device_eq)

lemma pushed_geo_eq:
  "pushed (fst (checkGeoRisk s u la lo)) =
     (case geo s (GEO_KEY_PREFIX @ u) of
        None \<Rightarrow> []
      | Some (lastLat, lastLon) \<Rightarrow>
          if calculateDistance la lo lastLat lastLon > 100 then [reason_geo] else [])"
  by (simp add: checkGeoRisk_def Let_def no_risk_def pushed_def split: option.splits)

lemma pushed_geo:
  "x \<in> set (pushed (fst (checkGeoRisk s u la lo))) \<Longrightarrow> x = reason_geo"
  by (cases "geo s (GEO_KEY_PREFIX @ u)"; cases "pushed (fst (checkGeoRisk s u la lo)) = []")
     (auto simp add: pushed_geo_eq split: if_split_asm)

lemma remainingChecks_reasons:
  "set (snd (fst (remainingChecks cfg c s tx (0, []))))
     \<subseteq> {reason_device, reason_geo, reason_amount, reason_night}"
  unfolding remainingChecks_def Let_def
  by (auto simp add: addCheck_eq split_beta split: option.splits
      dest: pushed_device pushed_geo)

lemma reason_hour_not_remaining:
  "reason_hour \<notin> set (snd (fst (remainingChecks cfg c s tx (0, []))))"
proof -
  have "reason_hour \<notin> {reason_device, reason_geo, reason_amount, reason_night}"
    by (simp add: reason_hour_def reason_device_def reason_geo_def reason_amount_def
        reason_night_def)
  then show ?thesis using remainingChecks_reasons by blast
qed

lemma detectFraud_total_eq:
  "detectFraud_total cfg c s tx =
     (let v = checkVelocity cfg (now c) s (userId tx) (amount tx);
          r = remainingChecks cfg c (snd v) tx (0, [])
      in ((contribution (fst v) + fst (fst r), pushed (fst v) @ snd (fst r)), snd r))"
  unfolding detectFraud_total_def Let_def
  by (simp add: split_beta addCheck_eq remainingChecks_shift [of _ _ _ _ "contribution _" "pushed _"])

lemma detectFraud_total_nonneg: "0 \<le> fst (fst (detectFraud_total cfg c s tx))"
  by (simp add: detectFraud_total_eq Let_def contribution_nonneg remainingChecks_nonneg)

lemma detectFraud_riskScore_range:
  "0 \<le> dr_riskScore (fst (detectFraud cfg c s tx)) \<and> dr_riskScore (fst (detectFraud cfg c s tx)) \<le> 1"
  using detectFraud_total_nonneg [of cfg c s tx]
  by (simp add: detectFraud_def Let_def split_beta)

lemma fallbackRiskScore_range: "0 \<le> fallbackRiskScore tx \<and> fallbackRiskScore tx \<le> 1"
  by (simp add: fallbackRiskScore_def)

lemma checkVelocity_zset:
  "zsets (snd (checkVelocity cfg t s u a)) (VELOCITY_KEY_PREFIX @ u) =
     zadd (zsets s (VELOCITY_KEY_PREFIX @ u)) t (a, t)"
  by (simp add: checkVelocity_def Let_def)

lemma checkVelocity_minute:
  assumes "int (length (zrangebyscore (zadd (zsets s (VELOCITY_KEY_PREFIX @ u)) t (a, t)) (t - 60000) t))
             > maxVelocityPerMinute cfg"
  shows "fst (checkVelocity cfg t s u a) = \<lparr> cr_score = 8 / 10, cr_reason = Some reason_minute \<rparr>"
  using assms by (simp add: checkVelocity_def Let_def)

lemma pushed_velocity:
  "set (pushed (fst (checkVelocity cfg t s u a))) \<subseteq> {reason_minute, reason_hour}"
proof -
  have "pushed (fst (checkVelocity cfg t s u a)) = [reason_minute]
        \<or> pushed (fst (checkVelocity cfg t s u a)) = [reason_hour]
        \<or> pushed (fst (checkVelocity cfg t s u a)) = []"
    by (simp add: checkVelocity_def Let_def pushed_def no_risk_def)
  then show ?thesis by auto
qed

lemma zadd_fresh:
  "m \<notin> snd ` set zs \<Longrightarrow> zadd zs t m = zs @ [(t, m)]"
proof -
  assume a: "m \<notin> snd ` set zs"
  have "filter (\<lambda>e. snd e \<noteq> m) zs = zs"
    using a by (intro filter_True) force
  then show ?thesis by (simp add: zadd_def)
qed

lemma own_sample_in_window:
  "(a, t) \<in> set (zrangebyscore (zadd zs t (a, t)) (t - 60000) t)"
  by (simp add: zadd_def zrangebyscore_def)

lemma window_zadd:
  assumes "m \<notin> set (zrangebyscore zs lo t)" and "lo \<le> t"
  shows "zrangebyscore (zadd zs t m) lo t = zrangebyscore zs lo t @ [m]"
proof -
  have "filter (\<lambda>e. lo \<le> fst e \<and> fst e \<le> t) (filter (\<lambda>e. snd e \<noteq> m) zs) =
        filter (\<lambda>e. lo \<le> fst e \<and> fst e \<le> t) zs"
    unfolding filter_filter
    using assms(1) by (intro filter_cong) (auto simp add: zrangebyscore_def)
  then show ?thesis
    using assms(2) by (simp add: zadd_def zrangebyscore_def)
qed

section \<open>Velocity rules\<close>

lemma busy_minute:
  "length (zrangebyscore (zadd (zsets busy_kv ''velocity:u1'') 1717243200000 (5000, 1717243200000))
       (1717243200000 - 60000) 1717243200000) = 21"
  by (simp add: busy_kv_def empty_kv_def zadd_def zrangebyscore_def)

lemma busy_hour:
  "length (zrangebyscore (zadd (zsets busy_kv ''velocity:u1'') 1717243200000 (5000, 1717243200000))
       (1717243200000 - 3600000) 1717243200000) = 21"
  by (simp add: busy_kv_def empty_kv_def zadd_def zrangebyscore_def)

lemma busy_checkVelocity:
  "fst (checkVelocity default_config 1717243200000 busy_kv ''u1'' 5000) =
     \<lparr> cr_score = 8 / 10, cr_reason = Some reason_minute \<rparr>"
  using busy_minute
  by (simp add: checkVelocity_def Let_def VELOCITY_KEY_PREFIX_def default_config_def)

lemma busy_remaining:
  "fst (remainingChecks default_config noon_clock
          (snd (checkVelocity default_config 1717243200000 busy_kv ''u1'' 5000)) tx_u1 (0, [])) = (0, [])"
  by (simp add: remainingChecks_def checkVelocity_def checkDeviceRisk_def Let_def addCheck_eq
      contribution_def pushed_def no_risk_def busy_kv_def empty_kv_def tx_u1_def noon_clock_def
      default_config_def VELOCITY_KEY_PREFIX_def DEVICE_KEY_PREFIX_def)

text \<open>
  Claim C4, as stated, fails: with twenty samples of the last twenty seconds in the
  store, the per-minute count (21 > 5) and the per-hour count (21 > 20) both exceed their
  thresholds, and the rule engine reports the per-minute reason only and adds 0.8, not
  0.8 + 0.6.
\<close>

theorem both_velocity_rules_counterexample:
  "int (length (zrangebyscore (zsets (snd (checkVelocity default_config (now noon_clock) busy_kv (userId tx_u1) (amount tx_u1)))
                   (VELOCITY_KEY_PREFIX @ userId tx_u1)) (now noon_clock - 60000) (now noon_clock)))
      > maxVelocityPerMinute default_config
   \<and> length (zrangebyscore (zsets (snd (checkVelocity default_config (now noon_clock) busy_kv (userId tx_u1) (amount tx_u1)))
                   (VELOCITY_KEY_PREFIX @ userId tx_u1)) (now noon_clock - 3600000) (now noon_clock)) > 20
   \<and> dr_reasons (fst (detectFraud default_config noon_clock busy_kv tx_u1)) = [reason_minute]
   \<and> reason_hour \<notin> set (dr_reasons (fst (detectFraud default_config noon_clock busy_kv tx_u1)))
   \<and> fst (fst (detectFraud_total default_config noon_clock busy_kv tx_u1)) = 8 / 10
   \<and> fst (fst (detectFraud_total default_config noon_clock busy_kv tx_u1)) \<noteq> 8 / 10 + 6 / 10"
proof -
  have z: "zsets (snd (checkVelocity default_config 1717243200000 busy_kv (userId tx_u1) (amount tx_u1)))
             (VELOCITY_KEY_PREFIX @ userId tx_u1) =
           zadd (zsets busy_kv ''velocity:u1'') 1717243200000 (5000, 1717243200000)"
    by (simp add: checkVelocity_def Let_def noon_clock_def tx_u1_def VELOCITY_KEY_PREFIX_def)
  have n: "now noon_clock = 1717243200000"
    by (simp add: noon_clock_def)
  have m: "maxVelocityPerMinute default_config = 5"
    by (simp add: default_config_def)
  have tot: "fst (detectFraud_total default_config noon_clock busy_kv tx_u1) = (8 / 10, [reason_minute])"
    using busy_checkVelocity busy_remaining
    by (simp add: detectFraud_total_eq Let_def contribution_def pushed_def noon_clock_def tx_u1_def)
  have r: "dr_reasons (fst (detectFraud default_config noon_clock busy_kv tx_u1)) = [reason_minute]"
    using tot by (simp add: detectFraud_def Let_def split_beta)
  have ne: "reason_hour \<noteq> reason_minute"
    by (simp add: reason_hour_def reason_minute_def)
  show ?thesis
    unfolding n m r tot unfolding z using busy_minute busy_hour ne by simp
qed

text \<open>
  Claim C4, amended: whenever the per-minute count (the sample of the transaction
  included) exceeds \<open>maxVelocityPerMinute\<close>, whatever the per-hour count is, the velocity
  check gives the score 0.8 with the per-minute reason; the total score is 0.8 plus what
  the remaining checks add, the per-minute reason comes first, and the per-hour reason is
  not among the reasons.
\<close>

theorem velocity_minute_rule_shadows_hour:
  assumes "int (length (zrangebyscore
                  (zadd (zsets s (VELOCITY_KEY_PREFIX @ userId tx)) (now c) (amount tx, now c))
                  (now c - 60000) (now c))) > maxVelocityPerMinute cfg"
  shows "fst (checkVelocity cfg (now c) s (userId tx) (amount tx)) =
           \<lparr> cr_score = 8 / 10, cr_reason = Some reason_minute \<rparr>
       \<and> fst (detectFraud_total cfg c s tx) =
           (8 / 10 + fst (fst (remainingChecks cfg c
                                 (snd (checkVelocity cfg (now c) s (userId tx) (amount tx))) tx (0, []))),
            reason_minute # snd (fst (remainingChecks cfg c
                                 (snd (checkVelocity cfg (now c) s (userId tx) (amount tx))) tx (0, []))))
       \<and> reason_hour \<notin> set (dr_reasons (fst (detectFraud cfg c s tx)))"
proof -
  have v: "fst (checkVelocity cfg (now c) s (userId tx) (amount tx)) =
             \<lparr> cr_score = 8 / 10, cr_reason = Some reason_minute \<rparr>"
    using assms by (rule checkVelocity_minute)
  have t: "fst (detectFraud_total cfg c s tx) =
           (8 / 10 + fst (fst (remainingChecks cfg c
                                 (snd (checkVelocity cfg (now c) s (userId tx) (amount tx))) tx (0, []))),
            reason_minute # snd (fst (remainingChecks cfg c
                                 (snd (checkVelocity cfg (now c) s (userId tx) (amount tx))) tx (0, []))))"
    by (simp add: detectFraud_total_eq Let_def v contribution_def pushed_def)
  have ne: "reason_hour \<noteq> reason_minute"
    by (simp add: reason_hour_def reason_minute_def)
  have r: "dr_reasons (fst (detectFraud cfg c s tx)) = snd (fst (detectFraud_total cfg c s tx))"
    by (simp add: detectFraud_def Let_def split_beta)
  have h: "reason_hour \<notin> set (dr_reasons (fst (detectFraud cfg c s tx)))"
    unfolding r t using ne reason_hour_not_remaining by simp
  show ?thesis using v t h by blast
qed

text \<open>The amended claim C4 at the store with twenty recent samples.\<close>

theorem velocity_minute_rule_shadows_hour_witness:
  "int (length (zrangebyscore
          (zadd (zsets busy_kv (VELOCITY_KEY_PREFIX @ userId tx_u1)) (now noon_clock)
             (amount tx_u1, now noon_clock))
          (now noon_clock - 60000) (now noon_clock))) > maxVelocityPerMinute default_config
   \<and> fst (checkVelocity default_config (now noon_clock) busy_kv (userId tx_u1) (amount tx_u1)) =
        \<lparr> cr_score = 8 / 10, cr_reason = Some reason_minute \<rparr>
   \<and> reason_hour \<notin> set (dr_reasons (fst (detectFraud default_config noon_clock busy_kv tx_u1)))"
proof -
  have h: "int (length (zrangebyscore
          (zadd (zsets busy_kv (VELOCITY_KEY_PREFIX @ userId tx_u1)) (now noon_clock)
             (amount tx_u1, now noon_clock))
          (now noon_clock - 60000) (now noon_clock))) > maxVelocityPerMinute default_config"
    using busy_minute
    by (simp add: noon_clock_def tx_u1_def VELOCITY_KEY_PREFIX_def default_config_def)
  show ?thesis
    using h velocity_minute_rule_shadows_hour [OF h] by blast
qed

text \<open>
  Claim C6, as stated, fails: exactly five samples lie in the last 60 seconds, one of
  them written in the current millisecond for the same amount. The member of the new
  sample is then already in the sorted set, the count read is still five, and the
  per-minute rule does not fire.
\<close>

theorem velocity_same_member_counterexample:
  "int (length (zrangebyscore (zsets same_ms_kv (VELOCITY_KEY_PREFIX @ userId tx_u1))
                  (now noon_clock - 60000) (now noon_clock))) = maxVelocityPerMinute default_config
   \<and> fst (checkVelocity default_config (now noon_clock) same_ms_kv (userId tx_u1) (amount tx_u1)) = no_risk
   \<and> reason_minute \<notin> set (dr_reasons (fst (detectFraud default_config noon_clock same_ms_kv tx_u1)))"
proof -
  have a: "int (length (zrangebyscore (zsets same_ms_kv (VELOCITY_KEY_PREFIX @ userId tx_u1))
                  (now noon_clock - 60000) (now noon_clock))) = maxVelocityPerMinute default_config"
    by (simp add: same_ms_kv_def empty_kv_def zrangebyscore_def tx_u1_def noon_clock_def
        VELOCITY_KEY_PREFIX_def default_config_def)
  have v: "fst (checkVelocity default_config (now noon_clock) same_ms_kv (userId tx_u1) (amount tx_u1)) = no_risk"
    by (simp add: checkVelocity_def Let_def same_ms_kv_def empty_kv_def zrangebyscore_def zadd_def
        tx_u1_def noon_clock_def VELOCITY_KEY_PREFIX_def default_config_def)
  have rem: "fst (remainingChecks default_config noon_clock
          (snd (checkVelocity default_config (now noon_clock) same_ms_kv (userId tx_u1) (amount tx_u1)))
          tx_u1 (0, [])) = (0, [])"
    by (simp add: remainingChecks_def checkVelocity_def checkDeviceRisk_def Let_def addCheck_eq
      contribution_def pushed_def no_risk_def same_ms_kv_def empty_kv_def tx_u1_def noon_clock_def
      default_config_def VELOCITY_KEY_PREFIX_def DEVICE_KEY_PREFIX_def)
  have r: "dr_reasons (fst (detectFraud default_config noon_clock same_ms_kv tx_u1)) = []"
    by (simp add: detectFraud_def Let_def split_beta detectFraud_total_eq v rem pushed_def no_risk_def)
  show ?thesis using a v r by simp
qed

text \<open>
  Claim C6, amended: the sample of the transaction is written before the windows are
  read and is among the members read for the last minute; when exactly
  \<open>maxVelocityPerMinute\<close> samples lie in the last 60 seconds and none of them is the member
  of the new sample (same amount and same millisecond), the count read is one more than
  the threshold and the per-minute rule fires.
\<close>

theorem velocity_counts_own_sample:
  assumes "(amount tx, now c) \<notin> set (zrangebyscore (zsets s (VELOCITY_KEY_PREFIX @ userId tx))
                                        (now c - 60000) (now c))"
      and "int (length (zrangebyscore (zsets s (VELOCITY_KEY_PREFIX @ userId tx))
                         (now c - 60000) (now c))) = maxVelocityPerMinute cfg"
  shows "(amount tx, now c) \<in> set (zrangebyscore
             (zsets (snd (checkVelocity cfg (now c) s (userId tx) (amount tx)))
                (VELOCITY_KEY_PREFIX @ userId tx)) (now c - 60000) (now c))
       \<and> int (length (zrangebyscore
             (zsets (snd (checkVelocity cfg (now c) s (userId tx) (amount tx)))
                (VELOCITY_KEY_PREFIX @ userId tx)) (now c - 60000) (now c)))
           = maxVelocityPerMinute cfg + 1
       \<and> fst (checkVelocity cfg (now c) s (userId tx) (amount tx)) =
           \<lparr> cr_score = 8 / 10, cr_reason = Some reason_minute \<rparr>
       \<and> reason_minute \<in> set (dr_reasons (fst (detectFraud cfg c s tx)))"
proof -
  let ?k = "VELOCITY_KEY_PREFIX @ userId tx"
  have own: "(amount tx, now c) \<in> set (zrangebyscore
             (zsets (snd (checkVelocity cfg (now c) s (userId tx) (amount tx))) ?k)
             (now c - 60000) (now c))"
    unfolding checkVelocity_zset by (rule own_sample_in_window)
  have len: "int (length (zrangebyscore (zadd (zsets s ?k) (now c) (amount tx, now c))
                      (now c - 60000) (now c))) = maxVelocityPerMinute cfg + 1"
    using assms(2) by (simp add: window_zadd [OF assms(1)])
  then have gt: "int (length (zrangebyscore (zadd (zsets s ?k) (now c) (amount tx, now c))
                      (now c - 60000) (now c))) > maxVelocityPerMinute cfg"
    by simp
  have v: "fst (checkVelocity cfg (now c) s (userId tx) (amount tx)) =
             \<lparr> cr_score = 8 / 10, cr_reason = Some reason_minute \<rparr>"
    using gt by (rule checkVelocity_minute)
  have r: "dr_reasons (fst (detectFraud cfg c s tx)) = snd (fst (detectFraud_total cfg c s tx))"
    by (simp add: detectFraud_def Let_def split_beta)
  have m: "reason_minute \<in> set (dr_reasons (fst (detectFraud cfg c s tx)))"
    unfolding r by (simp add: detectFraud_total_eq Let_def v pushed_def)
  show ?thesis using own len v m unfolding checkVelocity_zset by blast
qed

text \<open>The amended claim C6 at the store with five samples of earlier instants.\<close>

theorem velocity_counts_own_sample_witness:
  "(amount tx_u1, now noon_clock) \<notin> set (zrangebyscore (zsets five_kv (VELOCITY_KEY_PREFIX @ userId tx_u1))
                                        (now noon_clock - 60000) (now noon_clock))
   \<and> int (length (zrangebyscore (zsets five_kv (VELOCITY_KEY_PREFIX @ userId tx_u1))
                         (now noon_clock - 60000) (now noon_clock))) = maxVelocityPerMinute default_config
   \<and> fst (checkVelocity default_config (now noon_clock) five_kv (userId tx_u1) (amount tx_u1)) =
           \<lparr> cr_score = 8 / 10, cr_reason = Some reason_minute \<rparr>
   \<and> reason_minute \<in> set (dr_reasons (fst (detectFraud default_config noon_clock five_kv tx_u1)))"
proof -
  have h1: "(amount tx_u1, now noon_clock) \<notin> set (zrangebyscore (zsets five_kv (VELOCITY_KEY_PREFIX @ userId tx_u1))
                                        (now noon_clock - 60000) (now noon_clock))"
    by (simp add: five_kv_def empty_kv_def zrangebyscore_def tx_u1_def noon_clock_def
        VELOCITY_KEY_PREFIX_def)
  have h2: "int (length (zrangebyscore (zsets five_kv (VELOCITY_KEY_PREFIX @ userId tx_u1))
                         (now noon_clock - 60000) (now noon_clock))) = maxVelocityPerMinute default_config"
    by (simp add: five_kv_def empty_kv_def zrangebyscore_def tx_u1_def noon_clock_def
        VELOCITY_KEY_PREFIX_def default_config_def)
  show ?thesis
    using h1 h2 velocity_counts_own_sample [OF h1 h2] by blast
qed

section \<open>The amount-pattern rule\<close>

text \<open>No path of \<open>detectFraud\<close> reports the reason of \<open>checkAmountPatterns\<close>.\<close>

lemma reason_spike_never_reported:
  "reason_spike \<notin> set (dr_reasons (fst (detectFraud cfg c s tx)))"
proof -
  have r: "dr_reasons (fst (detectFraud cfg c s tx)) = snd (fst (detectFraud_total cfg c s tx))"
    by (simp add: detectFraud_def Let_def split_beta)
  have p: "set (pushed (fst (checkVelocity cfg (now c) s (userId tx) (amount tx))))
             \<subseteq> {reason_minute, reason_hour}"
    by (rule pushed_velocity)
  have ne: "reason_spike \<notin> {reason_minute, reason_hour, reason_device, reason_geo, reason_amount, reason_night}"
    by (simp add: reason_spike_def reason_minute_def reason_hour_def reason_device_def
        reason_geo_def reason_amount_def reason_night_def)
  show ?thesis
    unfolding r detectFraud_total_eq Let_def
    using p remainingChecks_reasons [of cfg c "snd (checkVelocity cfg (now c) s (userId tx) (amount tx))" tx] ne
    by auto
qed

text \<open>
  Claim C3 at a concrete input: the history of the last 24 hours holds the amount 1000,
  the transaction has the amount 200000 (more than ten times the mean and more than
  100000). \<open>checkAmountPatterns\<close> gives the score 0.7 with its reason on this input, but
  \<open>detectFraud\<close> does not call it: the rule score is 0 and there is no reason.
\<close>

theorem amount_spike_not_scored:
  "zrangebyscore (zsets history_kv (AMOUNT_KEY_PREFIX @ userId tx_spike))
       (now noon_clock - 86400000) (now noon_clock) = [(1000, 1717239600000)]
   \<and> amount tx_spike > 10 * 1000 \<and> amount tx_spike > 100000
   \<and> fst (checkAmountPatterns (now noon_clock) history_kv (userId tx_spike) (amount tx_spike)) =
        \<lparr> cr_score = 7 / 10, cr_reason = Some reason_spike \<rparr>
   \<and> fst (detectFraud default_config noon_clock history_kv tx_spike) =
        \<lparr> isFreudulent = False, dr_riskScore = 0, dr_reasons = [] \<rparr>"
proof -
  have w: "zrangebyscore (zsets history_kv (AMOUNT_KEY_PREFIX @ userId tx_spike))
       (now noon_clock - 86400000) (now noon_clock) = [(1000, 1717239600000)]"
    by (simp add: history_kv_def empty_kv_def zrangebyscore_def tx_spike_def noon_clock_def
        AMOUNT_KEY_PREFIX_def)
  have c: "fst (checkAmountPatterns (now noon_clock) history_kv (userId tx_spike) (amount tx_spike)) =
        \<lparr> cr_score = 7 / 10, cr_reason = Some reason_spike \<rparr>"
    unfolding checkAmountPatterns_def Let_def w by (simp add: tx_spike_def)
  have v: "fst (checkVelocity default_config (now noon_clock) history_kv (userId tx_spike) (amount tx_spike)) = no_risk"
    by (simp add: checkVelocity_def Let_def history_kv_def empty_kv_def zrangebyscore_def zadd_def
        tx_spike_def noon_clock_def VELOCITY_KEY_PREFIX_def default_config_def)
  have rem: "fst (remainingChecks default_config noon_clock
          (snd (checkVelocity default_config (now noon_clock) history_kv (userId tx_spike) (amount tx_spike)))
          tx_spike (0, [])) = (0, [])"
    by (simp add: remainingChecks_def checkVelocity_def checkDeviceRisk_def Let_def addCheck_eq
      contribution_def pushed_def no_risk_def history_kv_def empty_kv_def tx_spike_def noon_clock_def
      default_config_def VELOCITY_KEY_PREFIX_def DEVICE_KEY_PREFIX_def)
  have d: "fst (detectFraud default_config noon_clock history_kv tx_spike) =
        \<lparr> isFreudulent = False, dr_riskScore = 0, dr_reasons = [] \<rparr>"
    by (simp add: detectFraud_def Let_def split_beta detectFraud_total_eq v rem pushed_def
        contribution_def no_risk_def)
  show ?thesis using w c d by (simp add: tx_spike_def)
qed

section \<open>The last known location\<close>

lemma calculateDistance_poles: "calculateDistance 90 180 (- 90) 180 = 6371 * pi"
  by (simp add: calculateDistance_def deg2rad_def atan2_def Let_def)

lemma poles_far: "calculateDistance 90 180 (- 90) 180 > 100"
proof -
  have "6371 * pi \<ge> 6371 * 2" using pi_ge_two by simp
  then show ?thesis unfolding calculateDistance_poles by simp
qed

text \<open>
  Claim C7 at a concrete input: the last known location is (-90, 180) and the
  transaction is located at (90, 180). The location rule fires and the stored location
  is still (-90, 180) after scoring, not the location of the transaction.
\<close>

theorem geo_jump_keeps_old_location:
  "location tx_north = Some (90, 180)
   \<and> geo south_kv (GEO_KEY_PREFIX @ userId tx_north) = Some (- 90, 180)
   \<and> reason_geo \<in> set (dr_reasons (fst (detectFraud default_config noon_clock south_kv tx_north)))
   \<and> geo (snd (detectFraud default_config noon_clock south_kv tx_north)) (GEO_KEY_PREFIX @ userId tx_north)
        = Some (- 90, 180)
   \<and> geo (snd (detectFraud default_config noon_clock south_kv tx_north)) (GEO_KEY_PREFIX @ userId tx_north)
        \<noteq> location tx_north"
proof -
  have g: "checkGeoRisk s ''u1'' 90 180 = (\<lparr> cr_score = 6 / 10, cr_reason = Some reason_geo \<rparr>, s)"
    if "geo s ''geo:u1'' = Some (- 90, 180)" for s
    using that poles_far by (simp add: checkGeoRisk_def Let_def GEO_KEY_PREFIX_def)
  have s2: "geo (snd (checkDeviceRisk (snd (checkVelocity default_config 1717243200000 south_kv ''u1'' 5000)) ''u1'' ''d1'')) ''geo:u1''
            = Some (- 90, 180)"
    by (simp add: checkVelocity_def checkDeviceRisk_def Let_def south_kv_def empty_kv_def)
  have t: "detectFraud_total default_config noon_clock south_kv tx_north =
             ((6 / 10, [reason_geo]),
              snd (checkDeviceRisk (snd (checkVelocity default_config 1717243200000 south_kv ''u1'' 5000)) ''u1'' ''d1''))"
    unfolding detectFraud_total_def remainingChecks_def Let_def
    apply (simp add: tx_north_def noon_clock_def split_beta g [OF s2] addCheck_eq)
    apply (simp add: checkVelocity_def checkDeviceRisk_def Let_def south_kv_def empty_kv_def
        zadd_def zrangebyscore_def default_config_def contribution_def pushed_def no_risk_def
        VELOCITY_KEY_PREFIX_def DEVICE_KEY_PREFIX_def)
    done
  have d: "detectFraud default_config noon_clock south_kv tx_north =
             (\<lparr> isFreudulent = False, dr_riskScore = 6 / 10, dr_reasons = [reason_geo] \<rparr>,
              snd (checkDeviceRisk (snd (checkVelocity default_config 1717243200000 south_kv ''u1'' 5000)) ''u1'' ''d1''))"
    by (simp add: detectFraud_def t)
  show ?thesis
    unfolding d using s2 by (simp add: tx_north_def south_kv_def empty_kv_def GEO_KEY_PREFIX_def)
qed

section \<open>The fusion of the two scores\<close>

lemma predictRisk_range:
  assumes "\<forall>n fs sc. m = Some n \<and> predict n fs = Score sc \<longrightarrow> 0 \<le> sc \<and> sc \<le> 1"
  shows "0 \<le> predictRisk m c s tx \<and> predictRisk m c s tx \<le> 1"
proof (cases m)
  case None
  then show ?thesis using fallbackRiskScore_range by (simp add: predictRisk_def)
next
  case (Some n)
  show ?thesis
  proof (cases "predict n (preprocessFeatures c s tx)")
    case (Score sc)
    then have "0 \<le> sc \<and> sc \<le> 1" using assms Some by blast
    then show ?thesis using Some Score by (simp add: predictRisk_def)
  next
    case NaN
    then show ?thesis using Some fallbackRiskScore_range by (simp add: predictRisk_def)
  next
    case PredictThrows
    then show ?thesis using Some fallbackRiskScore_range by (simp add: predictRisk_def)
  qed
qed

lemma check_ok_cases:
  assumes "check cfg env st b = (CheckOk r, st')"
  obtains tx where "validateTransaction b = Inr tx"
    and "r = \<lparr> transactionId = newId env,
               resp_riskScore = fst (fst (scoreTransaction cfg (clk env) (ml st) (kvs st) tx)),
               isHighRisk = (fst (fst (scoreTransaction cfg (clk env) (ml st) (kvs st) tx)) \<ge> 7 / 10),
               resp_reasons = dr_reasons (snd (fst (scoreTransaction cfg (clk env) (ml st) (kvs st) tx))),
               recommendedAction =
                 (if fst (fst (scoreTransaction cfg (clk env) (ml st) (kvs st) tx)) \<ge> 7 / 10 then DENY else ALLOW) \<rparr>"
    and "db st' (newId env) = Some
           \<lparr> userId = userId tx, amount = amount tx,
             transactionType = transactionType tx, deviceId = deviceId tx,
             location = location tx,
             createdAt = (case createdAt tx of None \<Rightarrow> Some (now (clk env)) | Some t \<Rightarrow> Some t),
             ipAddress = clientAddress env,
             riskScore = fst (fst (scoreTransaction cfg (clk env) (ml st) (kvs st) tx)),
             status = (if fst (fst (scoreTransaction cfg (clk env) (ml st) (kvs st) tx)) \<ge> 7 / 10
                       then FLAGGED else PENDING) \<rparr>"
proof (cases "validateTransaction b")
  case (Inl msg)
  then show ?thesis using assms by (simp add: check_def)
next
  case (Inr tx)
  show ?thesis
  proof (cases "transactionType tx \<in> set TRANSACTION_TYPES")
    case False
    then show ?thesis using assms Inr by (simp add: check_def Let_def split_beta)
  next
    case True
    have "check cfg env st b = (CheckOk r, st')" by (rule assms)
    then show ?thesis
      using Inr True that [of tx]
      by (auto simp add: check_def Let_def split_beta)
  qed
qed

lemma scoreTransaction_final:
  "fst (fst (scoreTransaction cfg c m s tx)) =
     dr_riskScore (fst (detectFraud cfg c s tx)) * (6 / 10)
     + predictRisk m c (snd (detectFraud cfg c s tx)) tx * (4 / 10)"
  by (simp add: scoreTransaction_def Let_def split_beta)

text \<open>A body that passes the validation with a type the schema allows is scored.\<close>

lemma check_ok_total:
  assumes "validateTransaction b = Inr tx" and "transactionType tx \<in> set TRANSACTION_TYPES"
  shows "\<exists>r st'. check cfg env st b = (CheckOk r, st')"
  using assms by (simp add: check_def Let_def split_beta)

lemma validate_body_u1: "validateTransaction body_u1 = Inr tx_u1"
  by (simp add: validateTransaction_def body_u1_def tx_u1_def)

lemma clean_checkVelocity:
  "fst (checkVelocity cfg 1717243200000 empty_kv ''u1'' 5000) = no_risk" if "maxVelocityPerMinute cfg = 5"
  using that
  by (simp add: checkVelocity_def Let_def empty_kv_def zadd_def zrangebyscore_def)

lemma clean_remaining:
  "fst (remainingChecks cfg noon_clock
          (snd (checkVelocity cfg 1717243200000 empty_kv ''u1'' 5000)) tx_u1 (0, [])) = (0, [])"
  if "maxTransactionAmount cfg = 1000000" "nightTimeStart cfg = 23" "nightTimeEnd cfg = 5"
  using that
  by (simp add: remainingChecks_def checkVelocity_def checkDeviceRisk_def Let_def addCheck_eq
      contribution_def pushed_def no_risk_def empty_kv_def tx_u1_def noon_clock_def
      DEVICE_KEY_PREFIX_def)

lemma clean_detectFraud:
  "fst (detectFraud cfg noon_clock empty_kv tx_u1) =
     \<lparr> isFreudulent = False, dr_riskScore = 0, dr_reasons = [] \<rparr>"
  if "maxVelocityPerMinute cfg = 5" "maxTransactionAmount cfg = 1000000"
     "nightTimeStart cfg = 23" "nightTimeEnd cfg = 5"
proof -
  have v: "fst (checkVelocity cfg (now noon_clock) empty_kv (userId tx_u1) (amount tx_u1)) = no_risk"
    using clean_checkVelocity [OF that(1)] by (simp add: noon_clock_def tx_u1_def)
  have r: "fst (remainingChecks cfg noon_clock
          (snd (checkVelocity cfg (now noon_clock) empty_kv (userId tx_u1) (amount tx_u1))) tx_u1 (0, [])) = (0, [])"
    using clean_remaining [OF that(2,3,4)] by (simp add: noon_clock_def tx_u1_def)
  show ?thesis
    by (simp add: detectFraud_def Let_def split_beta detectFraud_total_eq v r pushed_def
        contribution_def no_risk_def)
qed

lemma clean_score:
  "fst (scoreTransaction cfg noon_clock (Some half_net) empty_kv tx_u1) =
     (1 / 5, \<lparr> isFreudulent = False, dr_riskScore = 0, dr_reasons = [] \<rparr>)"
  if "maxVelocityPerMinute cfg = 5" "maxTransactionAmount cfg = 1000000"
     "nightTimeStart cfg = 23" "nightTimeEnd cfg = 5"
  using clean_detectFraud [OF that]
  by (simp add: scoreTransaction_def Let_def split_beta predictRisk_def half_net_def)

lemma clean_check:
  "fst (check cfg noon_env clean_system body_u1) =
     CheckOk \<lparr> transactionId = ''507f1f77bcf86cd799439011'', resp_riskScore = 1 / 5,
               isHighRisk = False, resp_reasons = [], recommendedAction = ALLOW \<rparr>"
  if "maxVelocityPerMinute cfg = 5" "maxTransactionAmount cfg = 1000000"
     "nightTimeStart cfg = 23" "nightTimeEnd cfg = 5"
  using clean_score [OF that]
  by (simp add: check_def validate_body_u1 Let_def split_beta noon_env_def clean_system_def
      TRANSACTION_TYPES_def tx_u1_def)

lemma default_thresholds:
  "maxVelocityPerMinute default_config = 5" "maxTransactionAmount default_config = 1000000"
  "nightTimeStart default_config = 23" "nightTimeEnd default_config = 5"
  by (simp_all add: default_config_def)

lemma ml_off_thresholds:
  "maxVelocityPerMinute ml_off_config = 5" "maxTransactionAmount ml_off_config = 1000000"
  "nightTimeStart ml_off_config = 23" "nightTimeEnd ml_off_config = 5"
  by (simp_all add: ml_off_config_def default_config_def)

text \<open>
  Claim C1: for every transaction the \<^verbatim>\<open>/check\<close> handler scores, the rule score and the
  model score lie in \<open>[0, 1]\<close> (the model score under the hypothesis that a loaded model
  predicts within \<open>[0, 1]\<close>, as its sigmoid output does; the fallback scores do), the
  returned risk score is \<open>clamp(0.6 * ruleScore + 0.4 * modelScore, 0, 1)\<close>, and it lies in
  \<open>[0, 1]\<close>. The handler computes the weighted sum without a clamp; on these ranges the
  two agree.
\<close>

theorem check_riskScore_fusion:
  assumes "check cfg env st b = (CheckOk r, st')"
      and "validateTransaction b = Inr tx"
      and "\<forall>n fs sc. ml st = Some n \<and> predict n fs = Score sc \<longrightarrow> 0 \<le> sc \<and> sc \<le> 1"
  shows "0 \<le> dr_riskScore (fst (detectFraud cfg (clk env) (kvs st) tx))
       \<and> dr_riskScore (fst (detectFraud cfg (clk env) (kvs st) tx)) \<le> 1
       \<and> 0 \<le> predictRisk (ml st) (clk env) (snd (detectFraud cfg (clk env) (kvs st) tx)) tx
       \<and> predictRisk (ml st) (clk env) (snd (detectFraud cfg (clk env) (kvs st) tx)) tx \<le> 1
       \<and> resp_riskScore r =
           spec_final (dr_riskScore (fst (detectFraud cfg (clk env) (kvs st) tx)))
             (predictRisk (ml st) (clk env) (snd (detectFraud cfg (clk env) (kvs st) tx)) tx)
       \<and> 0 \<le> resp_riskScore r \<and> resp_riskScore r \<le> 1"
proof -
  let ?rule = "dr_riskScore (fst (detectFraud cfg (clk env) (kvs st) tx))"
  let ?model = "predictRisk (ml st) (clk env) (snd (detectFraud cfg (clk env) (kvs st) tx)) tx"
  have rr: "0 \<le> ?rule \<and> ?rule \<le> 1" by (rule detectFraud_riskScore_range)
  have mr: "0 \<le> ?model \<and> ?model \<le> 1" using assms(3) by (rule predictRisk_range)
  have eq: "resp_riskScore r = ?rule * (6 / 10) + ?model * (4 / 10)"
    using assms(1) assms(2) by (elim check_ok_cases) (simp add: scoreTransaction_final)
  have lo: "0 \<le> ?rule * (6 / 10) + ?model * (4 / 10)" using rr mr by simp
  have hi: "?rule * (6 / 10) + ?model * (4 / 10) \<le> 1" using rr mr by simp
  have sp: "spec_final ?rule ?model = ?rule * (6 / 10) + ?model * (4 / 10)"
    using lo hi by (simp add: spec_final_def spec_clamp_def algebra_simps)
  show ?thesis using rr mr eq sp lo hi by simp
qed

text \<open>Claim C1 at a clean store with a model that predicts 0.5: the risk score is 0.2.\<close>

theorem check_riskScore_fusion_witness:
  "check default_config noon_env clean_system body_u1 =
     (CheckOk \<lparr> transactionId = ''507f1f77bcf86cd799439011'', resp_riskScore = 1 / 5,
                isHighRisk = False, resp_reasons = [], recommendedAction = ALLOW \<rparr>,
      snd (check default_config noon_env clean_system body_u1))
   \<and> validateTransaction body_u1 = Inr tx_u1
   \<and> predictRisk (ml clean_system) (clk noon_env)
        (snd (detectFraud default_config (clk noon_env) (kvs clean_system) tx_u1)) tx_u1 = 1 / 2
   \<and> (1 / 5 :: real) = spec_final 0 (1 / 2)
   \<and> (0 :: real) \<le> 1 / 5 \<and> (1 / 5 :: real) \<le> 1"
proof -
  let ?r = "\<lparr> transactionId = ''507f1f77bcf86cd799439011'', resp_riskScore = 1 / 5,
                isHighRisk = False, resp_reasons = [], recommendedAction = ALLOW \<rparr>"
  have h1: "check default_config noon_env clean_system body_u1 =
              (CheckOk ?r, snd (check default_config noon_env clean_system body_u1))"
    using clean_check [OF default_thresholds] by (simp add: prod_eq_iff)
  have h2: "validateTransaction body_u1 = Inr tx_u1" by (rule validate_body_u1)
  have h3: "\<forall>n fs sc. ml clean_system = Some n \<and> predict n fs = Score sc \<longrightarrow> 0 \<le> sc \<and> sc \<le> 1"
    by (simp add: clean_system_def half_net_def)
  have p: "predictRisk (ml clean_system) (clk noon_env)
        (snd (detectFraud default_config (clk noon_env) (kvs clean_system) tx_u1)) tx_u1 = 1 / 2"
    by (simp add: predictRisk_def clean_system_def half_net_def)
  have d: "dr_riskScore (fst (detectFraud default_config (clk noon_env) (kvs clean_system) tx_u1)) = 0"
    using clean_detectFraud [OF default_thresholds] by (simp add: noon_env_def clean_system_def)
  show ?thesis
    using h1 h2 p check_riskScore_fusion [OF h1 h2 h3] unfolding p d by simp
qed

section \<open>The decision\<close>

lemma busy_score:
  "fst (scoreTransaction default_config noon_clock (Some sure_net) busy_kv tx_u1) =
     (22 / 25, \<lparr> isFreudulent = True, dr_riskScore = 4 / 5, dr_reasons = [reason_minute] \<rparr>)"
proof -
  have v: "fst (checkVelocity default_config (now noon_clock) busy_kv (userId tx_u1) (amount tx_u1)) =
     \<lparr> cr_score = 8 / 10, cr_reason = Some reason_minute \<rparr>"
    using busy_checkVelocity by (simp add: noon_clock_def tx_u1_def)
  have r: "fst (remainingChecks default_config noon_clock
          (snd (checkVelocity default_config (now noon_clock) busy_kv (userId tx_u1) (amount tx_u1))) tx_u1 (0, [])) = (0, [])"
    using busy_remaining by (simp add: noon_clock_def tx_u1_def)
  have d: "fst (detectFraud default_config noon_clock busy_kv tx_u1) =
     \<lparr> isFreudulent = True, dr_riskScore = 4 / 5, dr_reasons = [reason_minute] \<rparr>"
    by (simp add: detectFraud_def Let_def split_beta detectFraud_total_eq v r pushed_def
        contribution_def)
  show ?thesis
    using d by (simp add: scoreTransaction_def Let_def split_beta predictRisk_def sure_net_def)
qed

lemma busy_check:
  "fst (check default_config noon_env busy_system body_u1) =
     CheckOk \<lparr> transactionId = ''507f1f77bcf86cd799439011'', resp_riskScore = 22 / 25,
               isHighRisk = True, resp_reasons = [reason_minute], recommendedAction = DENY \<rparr>"
  using busy_score
  by (simp add: check_def validate_body_u1 Let_def split_beta noon_env_def busy_system_def
      TRANSACTION_TYPES_def tx_u1_def)

lemma low_thresholds:
  "maxVelocityPerMinute low_threshold_config = 5" "maxTransactionAmount low_threshold_config = 1000000"
  "nightTimeStart low_threshold_config = 23" "nightTimeEnd low_threshold_config = 5"
  by (simp_all add: low_threshold_config_def default_config_def)

lemma checkVelocity_threshold:
  "checkVelocity (cfg\<lparr> fraudThreshold := x \<rparr>) t s u a = checkVelocity cfg t s u a"
  by (simp add: checkVelocity_def)

lemma remainingChecks_threshold:
  "remainingChecks (cfg\<lparr> fraudThreshold := x \<rparr>) c s tx acc = remainingChecks cfg c s tx acc"
  by (simp add: remainingChecks_def)

lemma detectFraud_threshold:
  "detectFraud (cfg\<lparr> fraudThreshold := x \<rparr>) c s tx = detectFraud cfg c s tx"
  by (simp add: detectFraud_def detectFraud_total_def checkVelocity_threshold
      remainingChecks_threshold)

lemma check_threshold:
  "check (cfg\<lparr> fraudThreshold := x \<rparr>) env st b = check cfg env st b"
proof -
  have s: "scoreTransaction (cfg\<lparr> fraudThreshold := x \<rparr>) c' m' s' tx' = scoreTransaction cfg c' m' s' tx'"
    for c' m' s' and tx' :: "'b transaction_scheme"
    by (simp add: scoreTransaction_def detectFraud_threshold)
  show ?thesis
    by (cases "validateTransaction b") (simp_all add: check_def s)
qed

text \<open>
  Claim C2, as stated, fails for a configured threshold: with \<open>fraudThreshold\<close> set to 0.1
  the transaction scored 0.2 at a clean store reaches the threshold, and the handler
  answers \<open>isHighRisk = false\<close> and ALLOW and stores the document as PENDING.
\<close>

theorem configured_threshold_counterexample:
  "fraudThreshold low_threshold_config = 1 / 10
   \<and> fst (check low_threshold_config noon_env clean_system body_u1) =
       CheckOk \<lparr> transactionId = ''507f1f77bcf86cd799439011'', resp_riskScore = 1 / 5,
                 isHighRisk = False, resp_reasons = [], recommendedAction = ALLOW \<rparr>
   \<and> (1 / 5 :: real) \<ge> fraudThreshold low_threshold_config
   \<and> (\<exists>doc. db (snd (check low_threshold_config noon_env clean_system body_u1))
                ''507f1f77bcf86cd799439011'' = Some doc
         \<and> riskScore doc = 1 / 5 \<and> status doc = PENDING)"
proof -
  let ?r = "\<lparr> transactionId = ''507f1f77bcf86cd799439011'', resp_riskScore = 1 / 5,
                isHighRisk = False, resp_reasons = [], recommendedAction = ALLOW \<rparr>"
  have t: "fraudThreshold low_threshold_config = 1 / 10"
    by (simp add: low_threshold_config_def)
  have f: "fst (check low_threshold_config noon_env clean_system body_u1) = CheckOk ?r"
    by (rule clean_check [OF low_thresholds])
  then have h: "check low_threshold_config noon_env clean_system body_u1 =
              (CheckOk ?r, snd (check low_threshold_config noon_env clean_system body_u1))"
    by (simp add: prod_eq_iff)
  have d: "\<exists>doc. db (snd (check low_threshold_config noon_env clean_system body_u1))
                ''507f1f77bcf86cd799439011'' = Some doc
         \<and> riskScore doc = 1 / 5 \<and> status doc = PENDING"
    using h by (elim check_ok_cases) (auto simp add: noon_env_def)
  show ?thesis using t f d by simp
qed

text \<open>
  Claim C2, amended: the cutoff of the \<^verbatim>\<open>/check\<close> handler is the fixed value 0.7 (the
  default of \<open>fraudThreshold\<close>); the handler does not read the configured
  \<open>fraudThreshold\<close>, so its answer is the same for every value of it. For every
  transaction the handler scores, \<open>isHighRisk\<close> holds exactly when the risk score is at
  least 0.7, the recommended action is DENY exactly when \<open>isHighRisk\<close> holds and ALLOW
  otherwise, and the document stored under the returned id carries the same risk score,
  with the status FLAGGED exactly when that score is at least 0.7 and PENDING otherwise.
\<close>

theorem check_decision_threshold:
  assumes "check cfg env st b = (CheckOk r, st')"
  shows "check (cfg\<lparr> fraudThreshold := x \<rparr>) env st b = check cfg env st b
       \<and> isHighRisk r = (resp_riskScore r \<ge> 7 / 10)
       \<and> (recommendedAction r = DENY) = isHighRisk r
       \<and> (recommendedAction r = ALLOW) = (\<not> isHighRisk r)
       \<and> (\<exists>doc. db st' (transactionId r) = Some doc
             \<and> riskScore doc = resp_riskScore r
             \<and> (status doc = FLAGGED) = (riskScore doc \<ge> 7 / 10)
             \<and> (status doc = PENDING) = (\<not> riskScore doc \<ge> 7 / 10))"
proof -
  have "isHighRisk r = (resp_riskScore r \<ge> 7 / 10)
       \<and> (recommendedAction r = DENY) = isHighRisk r
       \<and> (recommendedAction r = ALLOW) = (\<not> isHighRisk r)
       \<and> (\<exists>doc. db st' (transactionId r) = Some doc
             \<and> riskScore doc = resp_riskScore r
             \<and> (status doc = FLAGGED) = (riskScore doc \<ge> 7 / 10)
             \<and> (status doc = PENDING) = (\<not> riskScore doc \<ge> 7 / 10))"
    using assms by (elim check_ok_cases) simp
  then show ?thesis using check_threshold by blast
qed

text \<open>
  The amended claim C2 at the store with twenty recent samples and a model that
  predicts 1, for the default configuration and for the threshold 0.9.
\<close>

theorem check_decision_threshold_witness:
  "check default_config noon_env busy_system body_u1 =
     (CheckOk \<lparr> transactionId = ''507f1f77bcf86cd799439011'', resp_riskScore = 22 / 25,
                isHighRisk = True, resp_reasons = [reason_minute], recommendedAction = DENY \<rparr>,
      snd (check default_config noon_env busy_system body_u1))
   \<and> check (default_config\<lparr> fraudThreshold := 9 / 10 \<rparr>) noon_env busy_system body_u1 =
       check default_config noon_env busy_system body_u1
   \<and> (\<exists>doc. db (snd (check default_config noon_env busy_system body_u1)) ''507f1f77bcf86cd799439011'' = Some doc
         \<and> riskScore doc = 22 / 25 \<and> status doc = FLAGGED)"
proof -
  let ?r = "\<lparr> transactionId = ''507f1f77bcf86cd799439011'', resp_riskScore = 22 / 25,
                isHighRisk = True, resp_reasons = [reason_minute], recommendedAction = DENY \<rparr>"
  have h: "check default_config noon_env busy_system body_u1 =
              (CheckOk ?r, snd (check default_config noon_env busy_system body_u1))"
    using busy_check by (simp add: prod_eq_iff)
  show ?thesis
    using h check_decision_threshold [OF h, where x = "9 / 10"] by auto
qed

section \<open>The flag \<open>enableMLModel\<close>\<close>

text \<open>
  Claim C5, as stated, fails: with \<open>enableMLModel\<close> false, a clean store and a model that
  predicts 0.5, the rule score is 0 and the returned risk score is 0.2, that is
  0.6 * 0 + 0.4 * 0.5: the prediction of the model is used, and the risk score is not
  0.6 times the rule score.
\<close>

theorem enableMLModel_false_counterexample:
  "enableMLModel ml_off_config = False
   \<and> fst (check ml_off_config noon_env clean_system body_u1) =
       CheckOk \<lparr> transactionId = ''507f1f77bcf86cd799439011'', resp_riskScore = 1 / 5,
                 isHighRisk = False, resp_reasons = [], recommendedAction = ALLOW \<rparr>
   \<and> dr_riskScore (fst (detectFraud ml_off_config (clk noon_env) (kvs clean_system) tx_u1)) = 0
   \<and> predictRisk (ml clean_system) (clk noon_env)
        (snd (detectFraud ml_off_config (clk noon_env) (kvs clean_system) tx_u1)) tx_u1 = 1 / 2
   \<and> (1 / 5 :: real) \<noteq> 6 / 10 * 0"
proof -
  have d: "dr_riskScore (fst (detectFraud ml_off_config (clk noon_env) (kvs clean_system) tx_u1)) = 0"
    using clean_detectFraud [OF ml_off_thresholds] by (simp add: noon_env_def clean_system_def)
  have p: "predictRisk (ml clean_system) (clk noon_env)
        (snd (detectFraud ml_off_config (clk noon_env) (kvs clean_system) tx_u1)) tx_u1 = 1 / 2"
    by (simp add: predictRisk_def clean_system_def half_net_def)
  have e: "enableMLModel ml_off_config = False"
    by (simp add: ml_off_config_def)
  show ?thesis
    using clean_check [OF ml_off_thresholds] d p e by simp
qed

lemma checkVelocity_flag:
  "checkVelocity (cfg\<lparr> enableMLModel := flag \<rparr>) t s u a = checkVelocity cfg t s u a"
  by (simp add: checkVelocity_def)

lemma remainingChecks_flag:
  "remainingChecks (cfg\<lparr> enableMLModel := flag \<rparr>) c s tx acc = remainingChecks cfg c s tx acc"
  by (simp add: remainingChecks_def)

lemma detectFraud_flag:
  "detectFraud (cfg\<lparr> enableMLModel := flag \<rparr>) c s tx = detectFraud cfg c s tx"
  by (simp add: detectFraud_def detectFraud_total_def checkVelocity_flag remainingChecks_flag)

text \<open>
  Claim C5, amended: the \<^verbatim>\<open>/check\<close> handler does not read \<open>enableMLModel\<close>. Whatever the
  flag, its answer and the store it leaves are the same, and the risk score is
  0.6 times the rule score plus 0.4 times the value of \<open>predictRisk\<close>. That value is the
  prediction of the loaded model when it is a number, and the amount-bucket fallback
  score (at least 0.2) when no model is loaded, when the prediction is NaN and when
  predicting throws.
\<close>

theorem check_ignores_enableMLModel:
  "check (cfg\<lparr> enableMLModel := flag \<rparr>) env st b = check cfg env st b
   \<and> fst (fst (scoreTransaction (cfg\<lparr> enableMLModel := flag \<rparr>) c m s tx)) =
       6 / 10 * dr_riskScore (fst (detectFraud cfg c s tx))
       + 4 / 10 * predictRisk m c (snd (detectFraud cfg c s tx)) tx
   \<and> predictRisk None c s tx = fallbackRiskScore tx
   \<and> predictRisk (Some n) c s tx =
       (case predict n (preprocessFeatures c s tx) of
          Score sc \<Rightarrow> sc
        | NaN \<Rightarrow> fallbackRiskScore tx
        | PredictThrows \<Rightarrow> fallbackRiskScore tx)
   \<and> fallbackRiskScore tx \<ge> 2 / 10"
proof -
  have s: "scoreTransaction (cfg\<lparr> enableMLModel := flag \<rparr>) c' m' s' tx' = scoreTransaction cfg c' m' s' tx'"
    for c' m' s' and tx' :: "'b transaction_scheme"
    by (simp add: scoreTransaction_def detectFraud_flag)
  have c: "check (cfg\<lparr> enableMLModel := flag \<rparr>) env st b = check cfg env st b"
    by (cases "validateTransaction b") (simp_all add: check_def s)
  have f: "fallbackRiskScore tx \<ge> 2 / 10"
    by (simp add: fallbackRiskScore_def)
  show ?thesis
    using c f by (simp add: s scoreTransaction_final predictRisk_def)
qed

text \<open>
  The amended claim C5 at the clean store: the same answer with the flag off, and the
  value of \<open>predictRisk\<close> with no model, with a model predicting 0.5, with a NaN
  prediction and with a throwing prediction.
\<close>

theorem check_ignores_enableMLModel_witness:
  "check ml_off_config noon_env clean_system body_u1 =
     check default_config noon_env clean_system body_u1
   \<and> predictRisk None noon_clock empty_kv tx_u1 = 2 / 10
   \<and> predictRisk (Some half_net) noon_clock empty_kv tx_u1 = 1 / 2
   \<and> predictRisk (Some nan_net) noon_clock empty_kv tx_u1 = 2 / 10
   \<and> predictRisk (Some throwing_net) noon_clock empty_kv tx_u1 = 2 / 10
   \<and> predictRisk (Some nan_net) noon_clock empty_kv tx_spike = 5 / 10"
proof -
  have a: "check ml_off_config noon_env clean_system body_u1 =
             check default_config noon_env clean_system body_u1"
    unfolding ml_off_config_def
    using check_ignores_enableMLModel [where cfg = default_config and flag = False
        and env = noon_env and st = clean_system and b = body_u1]
    by blast
  have f1: "fallbackRiskScore tx_u1 = 2 / 10"
    by (simp add: fallbackRiskScore_def tx_u1_def)
  have f2: "fallbackRiskScore tx_spike = 5 / 10"
    by (simp add: fallbackRiskScore_def tx_spike_def)
  show ?thesis
    using a f1 f2
      check_ignores_enableMLModel [where c = noon_clock and s = empty_kv and tx = tx_u1
        and n = half_net]
      check_ignores_enableMLModel [where c = noon_clock and s = empty_kv and tx = tx_u1
        and n = nan_net]
      check_ignores_enableMLModel [where c = noon_clock and s = empty_kv and tx = tx_u1
        and n = throwing_net]
      check_ignores_enableMLModel [where c = noon_clock and s = empty_kv and tx = tx_spike
        and n = nan_net]
    by (simp add: half_net_def nan_net_def throwing_net_def)
qed

section \<open>Features of a user without history\<close>

lemma features_length: "length (preprocessFeatures c s tx) = 10"
  by (simp add: preprocessFeatures_def Let_def FEATURE_NAMES_def)

text \<open>
  Claim C8, as stated, fails: for a user with empty lists and a device with no users, the
  normalised feature \<open>txCountLast24h\<close> (index 5) is \<open>(0 - 2.5) / 3.2 = -0.78125\<close>, not 0.
\<close>

theorem no_history_features_counterexample:
  "lists empty_kv (''tx:'' @ userId tx_u1 @ '':24h'') = []
   \<and> lists empty_kv (''tx:'' @ userId tx_u1 @ '':7d'') = []
   \<and> ssets empty_kv (''device:'' @ deviceId tx_u1) = []
   \<and> ssets empty_kv (''user_devices:'' @ userId tx_u1 @ '':24h'') = []
   \<and> preprocessFeatures noon_clock empty_kv tx_u1 =
        [- (9 / 40), 0, 3 / 2, 3, - (12 / 5), - (25 / 32), - (1 / 4), - (4 / 5), - (24 / 95), - (11 / 4)]
   \<and> preprocessFeatures noon_clock empty_kv tx_u1 ! 5 \<noteq> 0"
  by (simp add: preprocessFeatures_def Let_def FEATURE_NAMES_def FEATURE_STATS_def normalize_def
      average_def createdAtOrNow_def empty_kv_def tx_u1_def noon_clock_def)

text \<open>
  Claim C8, amended: for a user without history (empty 24h and 7d lists, no users of the
  device, no devices of the user) the vector has length 10 and each history-derived
  feature takes the raw value 0 (\<open>isNewDevice\<close> takes 1), so its normalised value is
  \<open>(0 - mean) / std\<close> (\<open>(1 - mean) / std\<close> for \<open>isNewDevice\<close>): 3, -2.4, -0.78125, -0.25,
  -0.8, -24/95 and -2.75, none of them 0.
\<close>

theorem no_history_features:
  assumes "lists s (''tx:'' @ userId tx @ '':24h'') = []"
      and "lists s (''tx:'' @ userId tx @ '':7d'') = []"
      and "ssets s (''device:'' @ deviceId tx) = []"
      and "ssets s (''user_devices:'' @ userId tx @ '':24h'') = []"
  shows "length (preprocessFeatures c s tx) = 10
       \<and> drop 3 (preprocessFeatures c s tx) =
           map normalize (zip [1, 0, 0, 0, 0, 0, 0] (drop 3 FEATURE_NAMES))
       \<and> drop 3 (preprocessFeatures c s tx) =
           [3, - (12 / 5), - (25 / 32), - (1 / 4), - (4 / 5), - (24 / 95), - (11 / 4)]"
  using assms
  by (simp add: preprocessFeatures_def Let_def FEATURE_NAMES_def FEATURE_STATS_def normalize_def
      average_def)

text \<open>The amended claim C8 at the empty store.\<close>

theorem no_history_features_witness:
  "lists empty_kv (''tx:'' @ userId tx_u1 @ '':24h'') = []
   \<and> lists empty_kv (''tx:'' @ userId tx_u1 @ '':7d'') = []
   \<and> ssets empty_kv (''device:'' @ deviceId tx_u1) = []
   \<and> ssets empty_kv (''user_devices:'' @ userId tx_u1 @ '':24h'') = []
   \<and> drop 3 (preprocessFeatures noon_clock empty_kv tx_u1) =
        [3, - (12 / 5), - (25 / 32), - (1 / 4), - (4 / 5), - (24 / 95), - (11 / 4)]"
proof -
  have h1: "lists empty_kv (''tx:'' @ userId tx_u1 @ '':24h'') = []" by (simp add: empty_kv_def)
  have h2: "lists empty_kv (''tx:'' @ userId tx_u1 @ '':7d'') = []" by (simp add: empty_kv_def)
  have h3: "ssets empty_kv (''device:'' @ deviceId tx_u1) = []" by (simp add: empty_kv_def)
  have h4: "ssets empty_kv (''user_devices:'' @ userId tx_u1 @ '':24h'') = []" by (simp add: empty_kv_def)
  show ?thesis
    using h1 h2 h3 h4 no_history_features [OF h1 h2 h3 h4, of noon_clock] by blast
qed

section \<open>Validation of falsy fields\<close>

lemma validate_zero:
  assumes "b_amount b = Some 0 \<or> (\<exists>lon. b_location b = Some (Some 0, lon))
           \<or> (\<exists>lat. b_location b = Some (lat, Some 0))"
  shows "validateTransaction b = Inl ''Missing required fields''
       \<or> validateTransaction b = Inl ''Invalid location format''"
  using assms
  by (auto simp add: validateTransaction_def split: option.splits prod.splits)

text \<open>
  Claim C9: a \<^verbatim>\<open>/check\<close> request whose amount is 0, or whose location has the latitude 0
  or the longitude 0, is answered with status 400, and the system state (store,
  collection and model) is the one before the request.
\<close>

theorem check_rejects_zero_fields:
  assumes "b_amount b = Some 0 \<or> (\<exists>lon. b_location b = Some (Some 0, lon))
           \<or> (\<exists>lat. b_location b = Some (lat, Some 0))"
  shows "(check cfg env st b = (BadRequest ''Missing required fields'', st)
          \<or> check cfg env st b = (BadRequest ''Invalid location format'', st))
       \<and> statusCode (fst (check cfg env st b)) = 400
       \<and> snd (check cfg env st b) = st"
proof -
  from validate_zero [OF assms]
  have "check cfg env st b = (BadRequest ''Missing required fields'', st)
        \<or> check cfg env st b = (BadRequest ''Invalid location format'', st)"
    by (auto simp add: check_def)
  then show ?thesis by auto
qed

text \<open>Claim C9 at a request located on the equator.\<close>

theorem check_rejects_zero_fields_witness:
  "b_location body_equator = Some (Some 0, Some (33792 / 10000))
   \<and> statusCode (fst (check default_config noon_env clean_system body_equator)) = 400
   \<and> snd (check default_config noon_env clean_system body_equator) = clean_system"
proof -
  have l: "b_location body_equator = Some (Some 0, Some (33792 / 10000))"
    by (simp add: body_equator_def)
  then have h: "b_amount body_equator = Some 0 \<or> (\<exists>lon. b_location body_equator = Some (Some 0, lon))
           \<or> (\<exists>lat. b_location body_equator = Some (lat, Some 0))"
    by blast
  show ?thesis
    using l check_rejects_zero_fields [OF h, of default_config noon_env clean_system] by auto
qed

section \<open>Reporting fraud\<close>

text \<open>An id without a document: 500 when it does not cast to an ObjectId, 404 otherwise.\<close>

lemma report_fraud_cast_error:
  "report_fraud fit_same noon_env unloaded_system report_invalid =
     (ServerError ''Internal server error'', unloaded_system)"
  by (simp add: report_fraud_def report_invalid_def unloaded_system_def noon_env_def hex24_def)

lemma report_fraud_not_found:
  assumes "db st tid = None" and "tid \<noteq> []" and "castsToObjectId env tid"
  shows "report_fraud fit env st \<lparr> r_transactionId = Some tid, r_wasActuallyFraud = Some w \<rparr> =
           (NotFound ''Transaction not found'', st)"
  using assms by (simp add: report_fraud_def)

lemma update_unloaded:
  "updateModelWithTransaction fit None c s tx w = Inl ModelNotLoaded"
  by (simp add: updateModelWithTransaction_def)

text \<open>
  Claim C10: on \<^verbatim>\<open>/report-fraud\<close> for a stored transaction, when the model update
  throws (as it does when no model is loaded), the answer is 500 and the collection
  holds the document with its new status, DENIED or APPROVED: the document was saved
  before the update ran and the save is not undone.
\<close>

theorem report_fraud_status_saved_before_update:
  assumes "db st tid = Some doc" and "tid \<noteq> []"
      and "updateModelWithTransaction fit (ml st) (clk env) (kvs st)
             (doc\<lparr> status := (if w then DENIED else APPROVED) \<rparr>) w = Inl e"
  shows "report_fraud fit env st \<lparr> r_transactionId = Some tid, r_wasActuallyFraud = Some w \<rparr> =
           (ServerError ''Internal server error'',
            st\<lparr> db := (db st)(tid := Some (doc\<lparr> status := (if w then DENIED else APPROVED) \<rparr>)) \<rparr>)
       \<and> statusCode (fst (report_fraud fit env st
             \<lparr> r_transactionId = Some tid, r_wasActuallyFraud = Some w \<rparr>)) = 500
       \<and> db (snd (report_fraud fit env st
             \<lparr> r_transactionId = Some tid, r_wasActuallyFraud = Some w \<rparr>)) tid =
           Some (doc\<lparr> status := (if w then DENIED else APPROVED) \<rparr>)"
  using assms by (simp add: report_fraud_def Let_def)

text \<open>Claim C10 at a stored PENDING transaction reported as fraud, no model loaded.\<close>

theorem report_fraud_status_saved_before_update_witness:
  "status stored_doc = PENDING
   \<and> ml unloaded_system = None
   \<and> fst (report_fraud fit_same noon_env unloaded_system report_true) =
       ServerError ''Internal server error''
   \<and> db (snd (report_fraud fit_same noon_env unloaded_system report_true))
        ''507f1f77bcf86cd799439011'' = Some (stored_doc\<lparr> status := DENIED \<rparr>)"
proof -
  have h1: "db unloaded_system ''507f1f77bcf86cd799439011'' = Some stored_doc"
    by (simp add: unloaded_system_def)
  have h2: "''507f1f77bcf86cd799439011'' \<noteq> []" by simp
  have m: "ml unloaded_system = None" by (simp add: unloaded_system_def)
  have h3: "updateModelWithTransaction fit_same (ml unloaded_system) (clk noon_env)
              (kvs unloaded_system) (stored_doc\<lparr> status := (if True then DENIED else APPROVED) \<rparr>) True
            = Inl ModelNotLoaded"
    unfolding m by (rule update_unloaded)
  have p: "status stored_doc = PENDING" by (simp add: stored_doc_def)
  show ?thesis
    using p m report_fraud_status_saved_before_update [OF h1 h2 h3]
    by (simp add: report_true_def)
qed

end
